theory Spec2Isabelle
  imports Complex_Main "HOL-Library.Word"
begin

section \<open>Vocabulary of statemch.cpp\<close>

text \<open>
  The enumerations below are declared in statemch.h and msgroute.h; their members are
  taken from the uses in statemch.cpp.  Object ids and message names are opaque
  numbers.
\<close>

type_synonym objectID = nat
type_synonym MSG_Name = nat

datatype State_Machine_Event =
  EVENT_Probe | EVENT_Enter | EVENT_Exit | EVENT_Update | EVENT_Message

datatype StateChange = NO_STATE_CHANGE | STATE_CHANGE | STATE_POP

datatype Scope_Rule = SCOPE_TO_SUBSTATE | SCOPE_TO_STATE | SCOPE_TO_STATE_MACHINE

datatype StateVariableScope = STATE_VARIABLE_SCOPE | SUBSTATE_VARIABLE_SCOPE

datatype StateMachineChange =
  NO_STATE_MACHINE_CHANGE | STATE_MACHINE_RESET | STATE_MACHINE_REPLACE
  | STATE_MACHINE_QUEUE | STATE_MACHINE_REQUEUE | STATE_MACHINE_PUSH | STATE_MACHINE_POP

text \<open>
  A queue designator is an index into the bank of queues, or one of the two
  out-of-band values.
\<close>

datatype StateMachineQueue =
  QUEUE nat | STATE_MACHINE_QUEUE_ALL | STATE_MACHINE_QUEUE_NULL

text \<open>
  Modelled from the spec: the constant STATE_MACHINE_NUM_QUEUES of statemch.h, which
  the spec gives as 3.
\<close>

definition STATE_MACHINE_NUM_QUEUES :: nat where
  "STATE_MACHINE_NUM_QUEUES = 3"

definition MAX_STATE_STACK_SIZE :: nat where
  "MAX_STATE_STACK_SIZE = 10"

text \<open>
  Modelled from the spec: the flags of m_registeredEvents (statemch.h), one per pair of
  Enter, Exit, Update and substate, state, state machine.  The word of flags is the set
  of the flags that are on: a test \<open>m_registeredEvents & FLAG\<close> is membership,
  \<open>&=\<close> with a mask is intersection.
\<close>

datatype RegisteredEvent =
  REGISTERED_EVENT_ENTER_SUBSTATE | REGISTERED_EVENT_EXIT_SUBSTATE
  | REGISTERED_EVENT_UPDATE_SUBSTATE
  | REGISTERED_EVENT_ENTER_STATE | REGISTERED_EVENT_EXIT_STATE
  | REGISTERED_EVENT_UPDATE_STATE
  | REGISTERED_EVENT_ENTER_STATEMACHINE | REGISTERED_EVENT_EXIT_STATEMACHINE
  | REGISTERED_EVENT_UPDATE_STATEMACHINE

definition REGISTERED_EVENT_UPDATE :: "RegisteredEvent set" where
  "REGISTERED_EVENT_UPDATE =
     {REGISTERED_EVENT_UPDATE_SUBSTATE, REGISTERED_EVENT_UPDATE_STATE,
      REGISTERED_EVENT_UPDATE_STATEMACHINE}"

definition REGISTERED_EVENT_STATE :: "RegisteredEvent set" where
  "REGISTERED_EVENT_STATE =
     {REGISTERED_EVENT_ENTER_STATE, REGISTERED_EVENT_EXIT_STATE,
      REGISTERED_EVENT_UPDATE_STATE}"

definition REGISTERED_EVENT_STATEMACHINE :: "RegisteredEvent set" where
  "REGISTERED_EVENT_STATEMACHINE =
     {REGISTERED_EVENT_ENTER_STATEMACHINE, REGISTERED_EVENT_EXIT_STATEMACHINE,
      REGISTERED_EVENT_UPDATE_STATEMACHINE}"

text \<open>Message payloads and the slots of state variables are tagged values.\<close>

datatype MSG_Data =
  MSG_Data_Empty | MSG_Data_Int int | MSG_Data_Float real | MSG_Data_Bool bool
  | MSG_Data_ObjectID objectID

datatype StateMachinePersistentData =
  Data_Unset | Data_Int int | Data_Float real | Data_Bool bool
  | Data_ObjectID objectID | Data_Pointer nat
  | Data_Vector2 "real \<times> real" | Data_Vector3 "real \<times> real \<times> real"

text \<open>
  The message router (msgroute.cpp) is an external collaborator.  A call of
  \<open>g_msgroute.SendMsg(delay, name, receiver, sender, rule, scope, queue, data, timer, cc)\<close>
  is recorded with its ten arguments; the calls made so far are kept in order.
\<close>

record MSG_Object =
  msg_delay :: real
  msg_name :: MSG_Name
  msg_receiver :: objectID
  msg_sender :: objectID
  msg_rule :: Scope_Rule
  msg_scope :: "32 word"
  msg_queue :: StateMachineQueue
  msg_data :: MSG_Data
  msg_timer :: bool
  msg_cc :: bool

datatype router_call =
  Router_SendMsg MSG_Object
  | Router_SendMsgBroadcast MSG_Object nat
  | Router_RemoveMsg MSG_Name objectID objectID bool

text \<open>
  A call of the transition function \<open>States(event, msg, state, substate)\<close>, with the
  value it returned.
\<close>

record States_call =
  q_event :: State_Machine_Event
  q_state :: int
  q_substate :: int
  q_handled :: bool

section \<open>The state machine\<close>

text \<open>
  The fields of class StateMachine, as statemch.cpp uses them.  Unsigned fields are
  32-bit words; the signed substate fields are integers, with the conversions of the
  source written out where a value crosses from one to the other.  Floats are reals.

  What the machine reaches through \<open>m_owner\<close>, \<open>m_mgr\<close> and the globals is part of the
  record: the owner's id and deletion mark, the clock, the constant ONE_FRAME, the calls
  made to the router and the change requests made to the manager.  \<open>derived\<close> holds the
  member variables of the class that derives from StateMachine, and \<open>calls\<close> logs the
  invocations of States.
\<close>

record 'u StateMachine =
  owner_ID :: objectID
  owner_MarkedForDeletion :: bool
  m_queue :: StateMachineQueue
  m_scopeState :: "32 word"
  m_scopeSubstate :: "32 word"
  m_currentState :: "32 word"
  m_updateIteration :: "32 word"
  m_currentSubstate :: int
  m_stateChange :: StateChange
  m_nextState :: "32 word"
  m_nextSubstate :: int
  m_delayedStateChangeQueued :: bool
  m_delayedSubstateChangeQueued :: bool
  m_stateChangeAllowed :: bool
  m_registeredEvents :: "RegisteredEvent set"
  m_timeOnEnterState :: real
  m_timeOnEnterSubstate :: real
  m_ccMessagesToGameObject :: objectID
  m_currentStateNameString :: string
  m_currentSubstateNameString :: string
  m_broadcastList :: "objectID list"
  m_stack :: "32 word list"
  m_stateVariables :: "StateMachinePersistentData list"
  m_substateVariables :: "StateMachinePersistentData list"
  g_time_CurTime :: real
  ONE_FRAME :: real
  g_msgroute :: "router_call list"
  mgr_requests :: "(nat option \<times> StateMachineChange \<times> StateMachineQueue) list"
  derived :: 'u
  calls :: "States_call list"

definition DeleteAllStateVariables :: "'u StateMachine \<Rightarrow> 'u StateMachine" where
  "DeleteAllStateVariables s = s\<lparr>m_stateVariables := []\<rparr>"

definition DeleteAllSubstateVariables :: "'u StateMachine \<Rightarrow> 'u StateMachine" where
  "DeleteAllSubstateVariables s = s\<lparr>m_substateVariables := []\<rparr>"

definition Initialize :: "'u StateMachine \<Rightarrow> 'u StateMachine" where
  "Initialize s =
     DeleteAllSubstateVariables (DeleteAllStateVariables
       (s\<lparr>m_scopeState := 0,
          m_scopeSubstate := 0,
          m_currentState := 0,
          m_updateIteration := 0,
          m_currentSubstate := -1,
          m_stateChange := NO_STATE_CHANGE,
          m_nextState := 0,
          m_nextSubstate := 0,
          m_delayedStateChangeQueued := False,
          m_delayedSubstateChangeQueued := False,
          m_stateChangeAllowed := True,
          m_registeredEvents := {},
          m_timeOnEnterState := 0,
          m_timeOnEnterSubstate := 0,
          m_ccMessagesToGameObject := 0,
          m_currentStateNameString := [],
          m_currentSubstateNameString := [],
          m_broadcastList := [],
          m_stack := []\<rparr>))"

subsection \<open>Requests for a change of state\<close>

text \<open>
  ASSERTMSG is compiled out of a release build, which is the build modelled: only the
  test of \<open>m_stateChangeAllowed\<close> guards a request.
\<close>

definition ChangeState :: "32 word \<Rightarrow> 'u StateMachine \<Rightarrow> 'u StateMachine" where
  "ChangeState newState s =
     (if m_stateChangeAllowed s
      then s\<lparr>m_stateChange := STATE_CHANGE, m_nextState := newState, m_nextSubstate := -1\<rparr>
      else s)"

definition ChangeSubstate :: "32 word \<Rightarrow> 'u StateMachine \<Rightarrow> 'u StateMachine" where
  "ChangeSubstate newSubstate s =
     (if m_stateChangeAllowed s
      then s\<lparr>m_stateChange := STATE_CHANGE, m_nextState := m_currentState s,
             m_nextSubstate := sint newSubstate\<rparr>
      else s)"

definition PopState :: "'u StateMachine \<Rightarrow> 'u StateMachine" where
  "PopState s = (if m_stateChangeAllowed s then s\<lparr>m_stateChange := STATE_POP\<rparr> else s)"

subsection \<open>Sending messages\<close>

definition g_msgroute_SendMsg ::
  "real \<Rightarrow> MSG_Name \<Rightarrow> objectID \<Rightarrow> objectID \<Rightarrow> Scope_Rule \<Rightarrow> 32 word \<Rightarrow> StateMachineQueue
     \<Rightarrow> MSG_Data \<Rightarrow> bool \<Rightarrow> bool \<Rightarrow> 'u StateMachine \<Rightarrow> 'u StateMachine" where
  "g_msgroute_SendMsg delay name receiver sender rule scope queue data timer cc s =
     s\<lparr>g_msgroute := g_msgroute s @
         [Router_SendMsg \<lparr>msg_delay = delay, msg_name = name, msg_receiver = receiver,
            msg_sender = sender, msg_rule = rule, msg_scope = scope, msg_queue = queue,
            msg_data = data, msg_timer = timer, msg_cc = cc\<rparr>]\<rparr>"

definition SendMsgDelayedToMeHelper ::
  "real \<Rightarrow> MSG_Name \<Rightarrow> Scope_Rule \<Rightarrow> StateMachineQueue \<Rightarrow> MSG_Data \<Rightarrow> bool
     \<Rightarrow> 'u StateMachine \<Rightarrow> 'u StateMachine" where
  "SendMsgDelayedToMeHelper delay name rule queue data timer s =
     (let scope = (if rule = SCOPE_TO_SUBSTATE then m_scopeSubstate s
                   else if rule = SCOPE_TO_STATE then m_scopeState s
                   else 0)
      in g_msgroute_SendMsg delay name (owner_ID s) (owner_ID s) rule scope queue data
           timer False s)"

definition SendMsg :: "MSG_Name \<Rightarrow> objectID \<Rightarrow> MSG_Data \<Rightarrow> 'u StateMachine \<Rightarrow> 'u StateMachine" where
  "SendMsg name receiver data s =
     g_msgroute_SendMsg (ONE_FRAME s) name receiver (owner_ID s) SCOPE_TO_STATE_MACHINE 0
       STATE_MACHINE_QUEUE_ALL data False False s"

definition SendMsgNow :: "MSG_Name \<Rightarrow> objectID \<Rightarrow> MSG_Data \<Rightarrow> 'u StateMachine \<Rightarrow> 'u StateMachine" where
  "SendMsgNow name receiver data s =
     g_msgroute_SendMsg 0 name receiver (owner_ID s) SCOPE_TO_STATE_MACHINE 0
       STATE_MACHINE_QUEUE_ALL data False False s"

definition SendMsgToSubstate :: "MSG_Name \<Rightarrow> MSG_Data \<Rightarrow> 'u StateMachine \<Rightarrow> 'u StateMachine" where
  "SendMsgToSubstate name data s =
     SendMsgDelayedToMeHelper (ONE_FRAME s) name SCOPE_TO_SUBSTATE (m_queue s) data False s"

definition SendMsgToState :: "MSG_Name \<Rightarrow> MSG_Data \<Rightarrow> 'u StateMachine \<Rightarrow> 'u StateMachine" where
  "SendMsgToState name data s =
     SendMsgDelayedToMeHelper (ONE_FRAME s) name SCOPE_TO_STATE (m_queue s) data False s"

definition SendMsgToStateMachine :: "MSG_Name \<Rightarrow> MSG_Data \<Rightarrow> 'u StateMachine \<Rightarrow> 'u StateMachine" where
  "SendMsgToStateMachine name data s =
     SendMsgDelayedToMeHelper (ONE_FRAME s) name SCOPE_TO_STATE_MACHINE (m_queue s) data False s"

definition SendMsgToStateMachineNow :: "MSG_Name \<Rightarrow> MSG_Data \<Rightarrow> 'u StateMachine \<Rightarrow> 'u StateMachine" where
  "SendMsgToStateMachineNow name data s =
     SendMsgDelayedToMeHelper 0 name SCOPE_TO_STATE_MACHINE (m_queue s) data False s"

definition SendMsgToSingleQueue ::
  "MSG_Name \<Rightarrow> StateMachineQueue \<Rightarrow> MSG_Data \<Rightarrow> 'u StateMachine \<Rightarrow> 'u StateMachine" where
  "SendMsgToSingleQueue name queue data s =
     SendMsgDelayedToMeHelper (ONE_FRAME s) name SCOPE_TO_STATE_MACHINE queue data False s"

definition SendMsgToSingleQueueNow ::
  "MSG_Name \<Rightarrow> StateMachineQueue \<Rightarrow> MSG_Data \<Rightarrow> 'u StateMachine \<Rightarrow> 'u StateMachine" where
  "SendMsgToSingleQueueNow name queue data s =
     SendMsgDelayedToMeHelper 0 name SCOPE_TO_STATE_MACHINE queue data False s"

definition SendMsgToAllQueues :: "MSG_Name \<Rightarrow> MSG_Data \<Rightarrow> 'u StateMachine \<Rightarrow> 'u StateMachine" where
  "SendMsgToAllQueues name data s =
     SendMsgDelayedToMeHelper (ONE_FRAME s) name SCOPE_TO_STATE_MACHINE
       STATE_MACHINE_QUEUE_ALL data False s"

definition SendMsgToAllQueuesNow :: "MSG_Name \<Rightarrow> MSG_Data \<Rightarrow> 'u StateMachine \<Rightarrow> 'u StateMachine" where
  "SendMsgToAllQueuesNow name data s =
     SendMsgDelayedToMeHelper 0 name SCOPE_TO_STATE_MACHINE STATE_MACHINE_QUEUE_ALL data False s"

text \<open>
  The loops over \<open>queue = 0 .. STATE_MACHINE_NUM_QUEUES - 1\<close> that skip the machine's
  own queue.
\<close>

fun other_queues_loop ::
  "real \<Rightarrow> MSG_Name \<Rightarrow> MSG_Data \<Rightarrow> nat list \<Rightarrow> 'u StateMachine \<Rightarrow> 'u StateMachine" where
  "other_queues_loop delay name data [] s = s"
| "other_queues_loop delay name data (queue # rest) s =
     other_queues_loop delay name data rest
       (if QUEUE queue \<noteq> m_queue s
        then SendMsgDelayedToMeHelper delay name SCOPE_TO_STATE_MACHINE (QUEUE queue) data False s
        else s)"

definition SendMsgToAllOtherQueues :: "MSG_Name \<Rightarrow> MSG_Data \<Rightarrow> 'u StateMachine \<Rightarrow> 'u StateMachine" where
  "SendMsgToAllOtherQueues name data s =
     other_queues_loop (ONE_FRAME s) name data [0 ..< STATE_MACHINE_NUM_QUEUES] s"

definition SendMsgToAllOtherQueuesNow :: "MSG_Name \<Rightarrow> MSG_Data \<Rightarrow> 'u StateMachine \<Rightarrow> 'u StateMachine" where
  "SendMsgToAllOtherQueuesNow name data s =
     other_queues_loop 0 name data [0 ..< STATE_MACHINE_NUM_QUEUES] s"

definition SendMsgDelayed ::
  "real \<Rightarrow> MSG_Name \<Rightarrow> objectID \<Rightarrow> MSG_Data \<Rightarrow> 'u StateMachine \<Rightarrow> 'u StateMachine" where
  "SendMsgDelayed delay name receiver data s =
     g_msgroute_SendMsg delay name receiver (owner_ID s) SCOPE_TO_STATE_MACHINE 0
       STATE_MACHINE_QUEUE_ALL data False False s"

definition SendMsgDelayedToSubstate ::
  "real \<Rightarrow> MSG_Name \<Rightarrow> MSG_Data \<Rightarrow> 'u StateMachine \<Rightarrow> 'u StateMachine" where
  "SendMsgDelayedToSubstate delay name data s =
     SendMsgDelayedToMeHelper delay name SCOPE_TO_SUBSTATE (m_queue s) data False s"

definition SendMsgDelayedToState ::
  "real \<Rightarrow> MSG_Name \<Rightarrow> MSG_Data \<Rightarrow> 'u StateMachine \<Rightarrow> 'u StateMachine" where
  "SendMsgDelayedToState delay name data s =
     SendMsgDelayedToMeHelper delay name SCOPE_TO_STATE (m_queue s) data False s"

definition SendMsgDelayedToStateMachine ::
  "real \<Rightarrow> MSG_Name \<Rightarrow> MSG_Data \<Rightarrow> 'u StateMachine \<Rightarrow> 'u StateMachine" where
  "SendMsgDelayedToStateMachine delay name data s =
     SendMsgDelayedToMeHelper delay name SCOPE_TO_STATE_MACHINE (m_queue s) data False s"

definition SendMsgDelayedToSingleQueue ::
  "real \<Rightarrow> MSG_Name \<Rightarrow> StateMachineQueue \<Rightarrow> MSG_Data \<Rightarrow> 'u StateMachine \<Rightarrow> 'u StateMachine" where
  "SendMsgDelayedToSingleQueue delay name queue data s =
     SendMsgDelayedToMeHelper delay name SCOPE_TO_STATE_MACHINE queue data False s"

definition SendMsgDelayedToAllQueues ::
  "real \<Rightarrow> MSG_Name \<Rightarrow> MSG_Data \<Rightarrow> 'u StateMachine \<Rightarrow> 'u StateMachine" where
  "SendMsgDelayedToAllQueues delay name data s =
     SendMsgDelayedToMeHelper delay name SCOPE_TO_STATE_MACHINE STATE_MACHINE_QUEUE_ALL
       data False s"

definition SendMsgDelayedToAllOtherQueues ::
  "real \<Rightarrow> MSG_Name \<Rightarrow> MSG_Data \<Rightarrow> 'u StateMachine \<Rightarrow> 'u StateMachine" where
  "SendMsgDelayedToAllOtherQueues delay name data s =
     other_queues_loop delay name data [0 ..< STATE_MACHINE_NUM_QUEUES] s"

definition SendMsgBroadcastNow ::
  "MSG_Name \<Rightarrow> nat \<Rightarrow> MSG_Data \<Rightarrow> 'u StateMachine \<Rightarrow> 'u StateMachine" where
  "SendMsgBroadcastNow name type data s =
     s\<lparr>g_msgroute := g_msgroute s @
         [Router_SendMsgBroadcast
            \<lparr>msg_delay = 0, msg_name = name, msg_receiver = 0, msg_sender = owner_ID s,
             msg_rule = SCOPE_TO_STATE_MACHINE, msg_scope = 0,
             msg_queue = STATE_MACHINE_QUEUE_ALL, msg_data = data, msg_timer = False,
             msg_cc = False\<rparr> type]\<rparr>"

text \<open>The two loops over \<open>m_broadcastList\<close>, from \<open>begin()\<close> to \<open>end()\<close>.\<close>

fun broadcast_loop ::
  "real \<Rightarrow> MSG_Name \<Rightarrow> MSG_Data \<Rightarrow> objectID list \<Rightarrow> 'u StateMachine \<Rightarrow> 'u StateMachine" where
  "broadcast_loop delay name data [] s = s"
| "broadcast_loop delay name data (i # rest) s =
     broadcast_loop delay name data rest
       (if i \<noteq> owner_ID s
        then g_msgroute_SendMsg delay name i (owner_ID s) SCOPE_TO_STATE_MACHINE 0
               STATE_MACHINE_QUEUE_ALL data False False s
        else s)"

definition SendMsgBroadcastToList :: "MSG_Name \<Rightarrow> MSG_Data \<Rightarrow> 'u StateMachine \<Rightarrow> 'u StateMachine" where
  "SendMsgBroadcastToList name data s =
     broadcast_loop (ONE_FRAME s) name data (m_broadcastList s) s"

definition SendMsgBroadcastToListNow :: "MSG_Name \<Rightarrow> MSG_Data \<Rightarrow> 'u StateMachine \<Rightarrow> 'u StateMachine" where
  "SendMsgBroadcastToListNow name data s =
     broadcast_loop 0 name data (m_broadcastList s) s"

definition BroadcastClearList :: "'u StateMachine \<Rightarrow> 'u StateMachine" where
  "BroadcastClearList s = s\<lparr>m_broadcastList := []\<rparr>"

definition BroadcastAddToList :: "objectID \<Rightarrow> 'u StateMachine \<Rightarrow> 'u StateMachine" where
  "BroadcastAddToList i s = s\<lparr>m_broadcastList := m_broadcastList s @ [i]\<rparr>"

subsection \<open>Timers\<close>

definition SetTimerSubstate :: "real \<Rightarrow> MSG_Name \<Rightarrow> 'u StateMachine \<Rightarrow> 'u StateMachine" where
  "SetTimerSubstate delay name s =
     (let delay = (if delay < ONE_FRAME s then ONE_FRAME s else delay)
      in SendMsgDelayedToMeHelper delay name SCOPE_TO_SUBSTATE (m_queue s)
           (MSG_Data_Float delay) True s)"

definition SetTimerState :: "real \<Rightarrow> MSG_Name \<Rightarrow> 'u StateMachine \<Rightarrow> 'u StateMachine" where
  "SetTimerState delay name s =
     (let delay = (if delay < ONE_FRAME s then ONE_FRAME s else delay)
      in SendMsgDelayedToMeHelper delay name SCOPE_TO_SUBSTATE (m_queue s)
           (MSG_Data_Float delay) True s)"

definition SetTimerStateMachine :: "real \<Rightarrow> MSG_Name \<Rightarrow> 'u StateMachine \<Rightarrow> 'u StateMachine" where
  "SetTimerStateMachine delay name s =
     (let delay = (if delay < ONE_FRAME s then ONE_FRAME s else delay)
      in SendMsgDelayedToMeHelper delay name SCOPE_TO_STATE_MACHINE (m_queue s)
           (MSG_Data_Float delay) True s)"

definition SetTimerExternal ::
  "real \<Rightarrow> MSG_Name \<Rightarrow> Scope_Rule \<Rightarrow> 'u StateMachine \<Rightarrow> 'u StateMachine" where
  "SetTimerExternal delay name rule s =
     SendMsgDelayedToMeHelper delay name rule (m_queue s) (MSG_Data_Float delay) True s"

definition StopTimer :: "MSG_Name \<Rightarrow> 'u StateMachine \<Rightarrow> 'u StateMachine" where
  "StopTimer name s =
     s\<lparr>g_msgroute := g_msgroute s @ [Router_RemoveMsg name (owner_ID s) (owner_ID s) True]\<rparr>"

definition SendCCMsg :: "MSG_Name \<Rightarrow> objectID \<Rightarrow> MSG_Data \<Rightarrow> 'u StateMachine \<Rightarrow> 'u StateMachine" where
  "SendCCMsg name receiver data s =
     g_msgroute_SendMsg 0 name receiver (owner_ID s) SCOPE_TO_STATE_MACHINE 0
       STATE_MACHINE_QUEUE_ALL data False True s"

text \<open>
  The messages MSG_CHANGE_STATE_DELAYED and MSG_CHANGE_SUBSTATE_DELAYED are members of
  the enumeration of message names, which is not part of statemch.cpp; they are
  parameters here.
\<close>

definition ChangeStateDelayed ::
  "MSG_Name \<Rightarrow> real \<Rightarrow> 32 word \<Rightarrow> 'u StateMachine \<Rightarrow> 'u StateMachine" where
  "ChangeStateDelayed MSG_CHANGE_STATE_DELAYED delay newState s =
     (if m_stateChangeAllowed s
      then SendMsgDelayedToState delay MSG_CHANGE_STATE_DELAYED (MSG_Data_Int (sint newState))
             (s\<lparr>m_delayedStateChangeQueued := True\<rparr>)
      else s)"

definition ChangeSubstateDelayed ::
  "MSG_Name \<Rightarrow> real \<Rightarrow> 32 word \<Rightarrow> 'u StateMachine \<Rightarrow> 'u StateMachine" where
  "ChangeSubstateDelayed MSG_CHANGE_SUBSTATE_DELAYED delay newSubstate s =
     (if m_stateChangeAllowed s
      then SendMsgDelayedToSubstate delay MSG_CHANGE_SUBSTATE_DELAYED
             (MSG_Data_Int (sint newSubstate)) (s\<lparr>m_delayedSubstateChangeQueued := True\<rparr>)
      else s)"

subsection \<open>Requests to the state machine manager\<close>

text \<open>
  The seven requests call \<open>m_mgr->RequestStateMachineChange(mch, change, m_queue)\<close>.
  From the machine's side the call is recorded with its arguments; a machine is named by
  a number, and the null pointer is \<open>None\<close>.
\<close>

definition mgr_RequestStateMachineChange ::
  "nat option \<Rightarrow> StateMachineChange \<Rightarrow> 'u StateMachine \<Rightarrow> 'u StateMachine" where
  "mgr_RequestStateMachineChange mch change s =
     s\<lparr>mgr_requests := mgr_requests s @ [(mch, change, m_queue s)]\<rparr>"

definition ResetStateMachine :: "'u StateMachine \<Rightarrow> 'u StateMachine" where
  "ResetStateMachine s = mgr_RequestStateMachineChange None STATE_MACHINE_RESET s"

definition ReplaceStateMachine :: "nat \<Rightarrow> 'u StateMachine \<Rightarrow> 'u StateMachine" where
  "ReplaceStateMachine mch s = mgr_RequestStateMachineChange (Some mch) STATE_MACHINE_REPLACE s"

definition QueueStateMachine :: "nat \<Rightarrow> 'u StateMachine \<Rightarrow> 'u StateMachine" where
  "QueueStateMachine mch s = mgr_RequestStateMachineChange (Some mch) STATE_MACHINE_QUEUE s"

definition RequeueStateMachine :: "'u StateMachine \<Rightarrow> 'u StateMachine" where
  "RequeueStateMachine s = mgr_RequestStateMachineChange None STATE_MACHINE_REQUEUE s"

definition PushStateMachine :: "nat \<Rightarrow> 'u StateMachine \<Rightarrow> 'u StateMachine" where
  "PushStateMachine mch s = mgr_RequestStateMachineChange (Some mch) STATE_MACHINE_PUSH s"

definition PopStateMachine :: "'u StateMachine \<Rightarrow> 'u StateMachine" where
  "PopStateMachine s = mgr_RequestStateMachineChange None STATE_MACHINE_POP s"

subsection \<open>State variables\<close>

text \<open>A freshly constructed StateMachinePersistentData is \<open>Data_Unset\<close>.\<close>

definition DeclareVariable ::
  "int \<Rightarrow> StateVariableScope \<Rightarrow> 'u StateMachine \<Rightarrow> 'u StateMachine" where
  "DeclareVariable idx scope s =
     (if scope = STATE_VARIABLE_SCOPE \<and> int (length (m_stateVariables s)) \<le> idx
      then s\<lparr>m_stateVariables := m_stateVariables s @ [Data_Unset]\<rparr>
      else if scope = SUBSTATE_VARIABLE_SCOPE \<and> int (length (m_substateVariables s)) \<le> idx
      then s\<lparr>m_substateVariables := m_substateVariables s @ [Data_Unset]\<rparr>
      else s)"

text \<open>
  The condition that every accessor asserts before it indexes the vector:
  \<open>id >= 0 && id < (int)size()\<close>, on the vector that the accessor selects for the scope.
\<close>

definition id_in_range :: "int \<Rightarrow> StateVariableScope \<Rightarrow> 'u StateMachine \<Rightarrow> bool" where
  "id_in_range idx scope s =
     (if scope = STATE_VARIABLE_SCOPE
      then 0 \<le> idx \<and> idx < int (length (m_stateVariables s))
      else 0 \<le> idx \<and> idx < int (length (m_substateVariables s)))"

text \<open>
  The accessors index the vector without a test in a release build; an id out of range
  is an error, \<open>None\<close>.  The seven setters differ in the tag of the value only.
\<close>

definition SetStateVariable ::
  "StateMachinePersistentData \<Rightarrow> int \<Rightarrow> StateVariableScope \<Rightarrow> 'u StateMachine
     \<Rightarrow> 'u StateMachine option" where
  "SetStateVariable v idx scope s =
     (if scope = STATE_VARIABLE_SCOPE
      then (if 0 \<le> idx \<and> idx < int (length (m_stateVariables s))
            then Some (s\<lparr>m_stateVariables := (m_stateVariables s)[nat idx := v]\<rparr>)
            else None)
      else (if 0 \<le> idx \<and> idx < int (length (m_substateVariables s))
            then Some (s\<lparr>m_substateVariables := (m_substateVariables s)[nat idx := v]\<rparr>)
            else None))"

definition SetStateVariableInt ::
  "int \<Rightarrow> int \<Rightarrow> StateVariableScope \<Rightarrow> 'u StateMachine \<Rightarrow> 'u StateMachine option" where
  "SetStateVariableInt v idx scope s = SetStateVariable (Data_Int v) idx scope s"

definition GetStateVariable ::
  "int \<Rightarrow> StateVariableScope \<Rightarrow> 'u StateMachine \<Rightarrow> StateMachinePersistentData option" where
  "GetStateVariable idx scope s =
     (if scope = STATE_VARIABLE_SCOPE
      then (if 0 \<le> idx \<and> idx < int (length (m_stateVariables s))
            then Some (m_stateVariables s ! nat idx) else None)
      else (if 0 \<le> idx \<and> idx < int (length (m_substateVariables s))
            then Some (m_substateVariables s ! nat idx) else None))"

section \<open>The transition function\<close>

text \<open>
  \<open>States\<close> is the pure virtual function that a derived class writes with the macros of
  statemch.h.  It acts on the machine through the functions above.  A transition function
  is given the event, the message, the queried state and substate and the machine as it
  stands; it answers whether it handled the event, together with the calls it makes, in
  order.
\<close>

datatype change_call =
  Call_ChangeState "32 word"
  | Call_ChangeSubstate "32 word"
  | Call_ChangeStateDelayed MSG_Name real "32 word"
  | Call_ChangeSubstateDelayed MSG_Name real "32 word"
  | Call_PopState

datatype send_call =
  Call_SendMsg MSG_Name objectID MSG_Data
  | Call_SendMsgNow MSG_Name objectID MSG_Data
  | Call_SendMsgToSubstate MSG_Name MSG_Data
  | Call_SendMsgToState MSG_Name MSG_Data
  | Call_SendMsgToStateMachine MSG_Name MSG_Data
  | Call_SendMsgToStateMachineNow MSG_Name MSG_Data
  | Call_SendMsgToSingleQueue MSG_Name StateMachineQueue MSG_Data
  | Call_SendMsgToSingleQueueNow MSG_Name StateMachineQueue MSG_Data
  | Call_SendMsgToAllQueues MSG_Name MSG_Data
  | Call_SendMsgToAllQueuesNow MSG_Name MSG_Data
  | Call_SendMsgToAllOtherQueues MSG_Name MSG_Data
  | Call_SendMsgToAllOtherQueuesNow MSG_Name MSG_Data

datatype delayed_call =
  Call_SendMsgDelayed real MSG_Name objectID MSG_Data
  | Call_SendMsgDelayedToSubstate real MSG_Name MSG_Data
  | Call_SendMsgDelayedToState real MSG_Name MSG_Data
  | Call_SendMsgDelayedToStateMachine real MSG_Name MSG_Data
  | Call_SendMsgDelayedToSingleQueue real MSG_Name StateMachineQueue MSG_Data
  | Call_SendMsgDelayedToAllQueues real MSG_Name MSG_Data
  | Call_SendMsgDelayedToAllOtherQueues real MSG_Name MSG_Data
  | Call_SendMsgBroadcastNow MSG_Name nat MSG_Data
  | Call_SendMsgBroadcastToList MSG_Name MSG_Data
  | Call_SendMsgBroadcastToListNow MSG_Name MSG_Data
  | Call_SendCCMsg MSG_Name objectID MSG_Data

datatype timer_call =
  Call_SetTimerSubstate real MSG_Name
  | Call_SetTimerState real MSG_Name
  | Call_SetTimerStateMachine real MSG_Name
  | Call_SetTimerExternal real MSG_Name Scope_Rule
  | Call_StopTimer MSG_Name

datatype manager_call =
  Call_ResetStateMachine
  | Call_ReplaceStateMachine nat
  | Call_QueueStateMachine nat
  | Call_RequeueStateMachine
  | Call_PushStateMachine nat
  | Call_PopStateMachine

text \<open>
  Modelled from the spec: \<open>Call_Register\<close> is the helper of statemch.h through which
  States, on a Probe, turns on the flags of the handlers it declares.
  \<open>Call_Derived\<close> is an assignment to the member variables of the derived class.
  A setter with an id out of range leaves the machine as it is.
\<close>

datatype 'u api_call =
  Change change_call
  | Send send_call
  | Delayed delayed_call
  | Timer timer_call
  | Manager manager_call
  | Call_BroadcastClearList
  | Call_BroadcastAddToList objectID
  | Call_DeclareVariable int StateVariableScope
  | Call_SetStateVariable StateMachinePersistentData int StateVariableScope
  | Call_Register "RegisteredEvent set"
  | Call_Derived "'u \<Rightarrow> 'u"

type_synonym 'u States =
  "State_Machine_Event \<Rightarrow> MSG_Object option \<Rightarrow> int \<Rightarrow> int \<Rightarrow> 'u StateMachine
     \<Rightarrow> bool \<times> 'u api_call list"

fun apply_change :: "change_call \<Rightarrow> 'u StateMachine \<Rightarrow> 'u StateMachine" where
  "apply_change (Call_ChangeState n) s = ChangeState n s"
| "apply_change (Call_ChangeSubstate n) s = ChangeSubstate n s"
| "apply_change (Call_ChangeStateDelayed m d n) s = ChangeStateDelayed m d n s"
| "apply_change (Call_ChangeSubstateDelayed m d n) s = ChangeSubstateDelayed m d n s"
| "apply_change Call_PopState s = PopState s"

fun apply_send :: "send_call \<Rightarrow> 'u StateMachine \<Rightarrow> 'u StateMachine" where
  "apply_send (Call_SendMsg n r d) s = SendMsg n r d s"
| "apply_send (Call_SendMsgNow n r d) s = SendMsgNow n r d s"
| "apply_send (Call_SendMsgToSubstate n d) s = SendMsgToSubstate n d s"
| "apply_send (Call_SendMsgToState n d) s = SendMsgToState n d s"
| "apply_send (Call_SendMsgToStateMachine n d) s = SendMsgToStateMachine n d s"
| "apply_send (Call_SendMsgToStateMachineNow n d) s = SendMsgToStateMachineNow n d s"
| "apply_send (Call_SendMsgToSingleQueue n q d) s = SendMsgToSingleQueue n q d s"
| "apply_send (Call_SendMsgToSingleQueueNow n q d) s = SendMsgToSingleQueueNow n q d s"
| "apply_send (Call_SendMsgToAllQueues n d) s = SendMsgToAllQueues n d s"
| "apply_send (Call_SendMsgToAllQueuesNow n d) s = SendMsgToAllQueuesNow n d s"
| "apply_send (Call_SendMsgToAllOtherQueues n d) s = SendMsgToAllOtherQueues n d s"
| "apply_send (Call_SendMsgToAllOtherQueuesNow n d) s = SendMsgToAllOtherQueuesNow n d s"

fun apply_delayed :: "delayed_call \<Rightarrow> 'u StateMachine \<Rightarrow> 'u StateMachine" where
  "apply_delayed (Call_SendMsgDelayed t n r d) s = SendMsgDelayed t n r d s"
| "apply_delayed (Call_SendMsgDelayedToSubstate t n d) s = SendMsgDelayedToSubstate t n d s"
| "apply_delayed (Call_SendMsgDelayedToState t n d) s = SendMsgDelayedToState t n d s"
| "apply_delayed (Call_SendMsgDelayedToStateMachine t n d) s =
     SendMsgDelayedToStateMachine t n d s"
| "apply_delayed (Call_SendMsgDelayedToSingleQueue t n q d) s =
     SendMsgDelayedToSingleQueue t n q d s"
| "apply_delayed (Call_SendMsgDelayedToAllQueues t n d) s = SendMsgDelayedToAllQueues t n d s"
| "apply_delayed (Call_SendMsgDelayedToAllOtherQueues t n d) s =
     SendMsgDelayedToAllOtherQueues t n d s"
| "apply_delayed (Call_SendMsgBroadcastNow n ty d) s = SendMsgBroadcastNow n ty d s"
| "apply_delayed (Call_SendMsgBroadcastToList n d) s = SendMsgBroadcastToList n d s"
| "apply_delayed (Call_SendMsgBroadcastToListNow n d) s = SendMsgBroadcastToListNow n d s"
| "apply_delayed (Call_SendCCMsg n r d) s = SendCCMsg n r d s"

fun apply_timer :: "timer_call \<Rightarrow> 'u StateMachine \<Rightarrow> 'u StateMachine" where
  "apply_timer (Call_SetTimerSubstate t n) s = SetTimerSubstate t n s"
| "apply_timer (Call_SetTimerState t n) s = SetTimerState t n s"
| "apply_timer (Call_SetTimerStateMachine t n) s = SetTimerStateMachine t n s"
| "apply_timer (Call_SetTimerExternal t n r) s = SetTimerExternal t n r s"
| "apply_timer (Call_StopTimer n) s = StopTimer n s"

fun apply_manager :: "manager_call \<Rightarrow> 'u StateMachine \<Rightarrow> 'u StateMachine" where
  "apply_manager Call_ResetStateMachine s = ResetStateMachine s"
| "apply_manager (Call_ReplaceStateMachine m) s = ReplaceStateMachine m s"
| "apply_manager (Call_QueueStateMachine m) s = QueueStateMachine m s"
| "apply_manager Call_RequeueStateMachine s = RequeueStateMachine s"
| "apply_manager (Call_PushStateMachine m) s = PushStateMachine m s"
| "apply_manager Call_PopStateMachine s = PopStateMachine s"

fun apply_api :: "'u api_call \<Rightarrow> 'u StateMachine \<Rightarrow> 'u StateMachine" where
  "apply_api (Change c) s = apply_change c s"
| "apply_api (Send c) s = apply_send c s"
| "apply_api (Delayed c) s = apply_delayed c s"
| "apply_api (Timer c) s = apply_timer c s"
| "apply_api (Manager c) s = apply_manager c s"
| "apply_api Call_BroadcastClearList s = BroadcastClearList s"
| "apply_api (Call_BroadcastAddToList i) s = BroadcastAddToList i s"
| "apply_api (Call_DeclareVariable idx scope) s = DeclareVariable idx scope s"
| "apply_api (Call_SetStateVariable v idx scope) s =
     (case SetStateVariable v idx scope s of Some s' \<Rightarrow> s' | None \<Rightarrow> s)"
| "apply_api (Call_Register flags) s =
     s\<lparr>m_registeredEvents := m_registeredEvents s \<union> flags\<rparr>"
| "apply_api (Call_Derived f) s = s\<lparr>derived := f (derived s)\<rparr>"

fun run_calls :: "'u api_call list \<Rightarrow> 'u StateMachine \<Rightarrow> 'u StateMachine" where
  "run_calls [] s = s"
| "run_calls (c # cs) s = run_calls cs (apply_api c s)"

text \<open>
  One invocation \<open>States(event, msg, state, substate)\<close> of the transition function
  \<open>h\<close>: its calls are run on the machine, and the invocation is logged with its answer.
\<close>

definition States ::
  "'u States \<Rightarrow> State_Machine_Event \<Rightarrow> MSG_Object option \<Rightarrow> int \<Rightarrow> int \<Rightarrow> 'u StateMachine
     \<Rightarrow> bool \<times> 'u StateMachine" where
  "States h event msg state substate s =
     (let (handled, cs) = h event msg state substate s;
          s' = run_calls cs s
      in (handled,
          s'\<lparr>calls := calls s' @
               [\<lparr>q_event = event, q_state = state, q_substate = substate,
                 q_handled = handled\<rparr>]\<rparr>))"

section \<open>Applying a change of state\<close>

text \<open>
  PerformStateChanges, lines 177 to 289.  The body of its loop is cut into the four
  parts that follow one another in the source: the Exit events, the \<open>switch\<close> on
  \<open>m_stateChange\<close>, the bookkeeping of scope, variables, time and flags, and the Probe
  and Enter events.  Every part reads the fields again, as the source does.
\<close>

definition exit_events :: "'u States \<Rightarrow> 'u StateMachine \<Rightarrow> 'u StateMachine" where
  "exit_events h s0 =
     (let s1 = s0\<lparr>m_stateChangeAllowed := False,
                  m_delayedStateChangeQueued := False,
                  m_delayedSubstateChangeQueued := False,
                  m_updateIteration := 0\<rparr>;
          s2 = (if 0 \<le> m_currentSubstate s1
                   \<and> REGISTERED_EVENT_EXIT_SUBSTATE \<in> m_registeredEvents s1
                then snd (States h EVENT_Exit None (sint (m_currentState s1))
                            (m_currentSubstate s1) s1)
                else s1)
      in (if m_nextSubstate s2 < 0 \<and> REGISTERED_EVENT_EXIT_STATE \<in> m_registeredEvents s2
          then snd (States h EVENT_Exit None (sint (m_currentState s2)) (-1) s2)
          else s2))"

definition switch_stateChange :: "'u StateMachine \<Rightarrow> 'u StateMachine" where
  "switch_stateChange s =
     (case m_stateChange s of
        STATE_CHANGE \<Rightarrow>
          (let s1 = (if m_nextSubstate s < 0
                     then (let pushed = m_stack s @ [m_currentState s]
                           in s\<lparr>m_stack := (if MAX_STATE_STACK_SIZE < length pushed
                                             then tl pushed else pushed)\<rparr>)
                     else s)
           in s1\<lparr>m_currentState := m_nextState s1, m_currentSubstate := m_nextSubstate s1\<rparr>)
      | STATE_POP \<Rightarrow>
          (if m_stack s \<noteq> []
           then s\<lparr>m_currentState := last (m_stack s),
                  m_currentSubstate := -1,
                  m_stack := butlast (m_stack s)\<rparr>
           else s)
      | NO_STATE_CHANGE \<Rightarrow> s)"

definition new_scope :: "'u StateMachine \<Rightarrow> 'u StateMachine" where
  "new_scope s0 =
     (let s1 = s0\<lparr>m_scopeSubstate := m_scopeSubstate s0 + 1\<rparr>;
          s2 = (if m_nextSubstate s1 < 0 then s1\<lparr>m_scopeState := m_scopeState s1 + 1\<rparr> else s1);
          s3 = DeleteAllSubstateVariables s2;
          s4 = (if m_nextSubstate s3 < 0 then DeleteAllStateVariables s3 else s3);
          s5 = s4\<lparr>m_timeOnEnterSubstate := g_time_CurTime s4\<rparr>;
          s6 = (if m_nextSubstate s5 < 0 then s5\<lparr>m_timeOnEnterState := g_time_CurTime s5\<rparr>
                else s5);
          s7 = s6\<lparr>m_stateChange := NO_STATE_CHANGE, m_stateChangeAllowed := True\<rparr>
      in (if m_nextSubstate s7 < 0
          then s7\<lparr>m_registeredEvents := m_registeredEvents s7 \<inter> REGISTERED_EVENT_STATEMACHINE\<rparr>
          else s7\<lparr>m_registeredEvents :=
                    m_registeredEvents s7 \<inter> (REGISTERED_EVENT_STATE \<union> REGISTERED_EVENT_STATEMACHINE)\<rparr>))"

definition enter_events :: "'u States \<Rightarrow> 'u StateMachine \<Rightarrow> 'u StateMachine" where
  "enter_events h s0 =
     (let s1 = snd (States h EVENT_Probe None (sint (m_currentState s0)) (m_currentSubstate s0) s0)
      in (if m_nextSubstate s1 < 0
          then (if REGISTERED_EVENT_ENTER_STATE \<in> m_registeredEvents s1
                then snd (States h EVENT_Enter None (sint (m_currentState s1))
                            (m_currentSubstate s1) s1)
                else s1)
          else (if REGISTERED_EVENT_ENTER_SUBSTATE \<in> m_registeredEvents s1
                then snd (States h EVENT_Enter None (sint (m_currentState s1))
                            (m_currentSubstate s1) s1)
                else s1)))"

definition PerformStateChanges_body :: "'u States \<Rightarrow> 'u StateMachine \<Rightarrow> 'u StateMachine" where
  "PerformStateChanges_body h s =
     enter_events h (new_scope (switch_stateChange (exit_events h s)))"

text \<open>
  The loop \<open>while( m_stateChange != NO_STATE_CHANGE && (--safetyCount >= 0) )\<close>: the
  counter is decremented only when a change is pending.
\<close>

function PerformStateChanges_loop ::
  "'u States \<Rightarrow> int \<Rightarrow> 'u StateMachine \<Rightarrow> 'u StateMachine" where
  "PerformStateChanges_loop h safetyCount s =
     (if m_stateChange s \<noteq> NO_STATE_CHANGE \<and> 0 \<le> safetyCount - 1
      then PerformStateChanges_loop h (safetyCount - 1) (PerformStateChanges_body h s)
      else s)"
  by pat_completeness auto
termination
  by (relation "measure (\<lambda>(h, safetyCount, s). nat safetyCount)") auto

declare PerformStateChanges_loop.simps [simp del]

definition PerformStateChanges :: "'u States \<Rightarrow> 'u StateMachine \<Rightarrow> 'u StateMachine" where
  "PerformStateChanges h s = PerformStateChanges_loop h 20 s"

section \<open>Dispatching events\<close>

text \<open>
  Modelled from the spec: GetCCReceiver (statemch.h) answers the configured CC
  receiver, the field that Initialize sets to 0.
\<close>

definition GetCCReceiver :: "'u StateMachine \<Rightarrow> objectID" where
  "GetCCReceiver s = m_ccMessagesToGameObject s"

text \<open>Lines 141 to 144 of Process: the copy to the CC receiver.\<close>

definition Process_cc ::
  "State_Machine_Event \<Rightarrow> MSG_Object option \<Rightarrow> 'u StateMachine \<Rightarrow> 'u StateMachine" where
  "Process_cc event msg s =
     (case msg of
        Some m \<Rightarrow>
          (if 0 < GetCCReceiver s \<and> event = EVENT_Message
           then SendCCMsg (msg_name m) (GetCCReceiver s) (msg_data m) s
           else s)
      | None \<Rightarrow> s)"

text \<open>Lines 147 to 159 of Process: the three queries.\<close>

definition Process_ladder ::
  "'u States \<Rightarrow> State_Machine_Event \<Rightarrow> MSG_Object option \<Rightarrow> 'u StateMachine
     \<Rightarrow> bool \<times> 'u StateMachine" where
  "Process_ladder h event msg s0 =
     (let (handled1, s1) =
            (if 0 \<le> m_currentSubstate s0
             then States h event msg (sint (m_currentState s0)) (m_currentSubstate s0) s0
             else (False, s0));
          (handled2, s2) =
            (if \<not> handled1
             then States h event msg (sint (m_currentState s1)) (-1) s1
             else (handled1, s1))
      in (if \<not> handled2 then States h event msg (-1) (-1) s2 else (handled2, s2)))"

definition Process ::
  "'u States \<Rightarrow> State_Machine_Event \<Rightarrow> MSG_Object option \<Rightarrow> 'u StateMachine
     \<Rightarrow> 'u StateMachine" where
  "Process h event msg s =
     (if \<not> owner_MarkedForDeletion s
      then PerformStateChanges h (snd (Process_ladder h event msg (Process_cc event msg s)))
      else s)"

text \<open>Lines 103 to 117 of Update: the queries, each behind its flag.\<close>

definition Update_ladder :: "'u States \<Rightarrow> 'u StateMachine \<Rightarrow> bool \<times> 'u StateMachine" where
  "Update_ladder h s =
     (let s0 = s\<lparr>m_updateIteration := m_updateIteration s + 1\<rparr>;
          (handled1, s1) =
            (if 0 \<le> m_currentSubstate s0
                \<and> REGISTERED_EVENT_UPDATE_SUBSTATE \<in> m_registeredEvents s0
             then States h EVENT_Update None (sint (m_currentState s0)) (m_currentSubstate s0) s0
             else (False, s0));
          (handled2, s2) =
            (if \<not> handled1 \<and> REGISTERED_EVENT_UPDATE_STATE \<in> m_registeredEvents s1
             then States h EVENT_Update None (sint (m_currentState s1)) (-1) s1
             else (handled1, s1))
      in (if \<not> handled2 \<and> REGISTERED_EVENT_UPDATE_STATEMACHINE \<in> m_registeredEvents s2
          then States h EVENT_Update None (-1) (-1) s2
          else (handled2, s2)))"

definition Update :: "'u States \<Rightarrow> 'u StateMachine \<Rightarrow> 'u StateMachine" where
  "Update h s =
     (if m_registeredEvents s \<inter> REGISTERED_EVENT_UPDATE \<noteq> {} \<and> \<not> owner_MarkedForDeletion s
      then PerformStateChanges h (snd (Update_ladder h s))
      else s)"

definition Reset :: "'u States \<Rightarrow> 'u StateMachine \<Rightarrow> 'u StateMachine" where
  "Reset h s = Process h EVENT_Enter None (Process h EVENT_Probe None (Initialize s))"

section \<open>The state machine manager\<close>

text \<open>
  The two arrays of pending requests, indexed by queue.  An array of
  STATE_MACHINE_NUM_QUEUES entries is a function on the indices; a write at any other
  index is outside the array and is an error, \<open>None\<close>.
\<close>

record StateMachineManager =
  m_stateMachineChange :: "nat \<Rightarrow> StateMachineChange"
  m_newStateMachine :: "nat \<Rightarrow> nat option"

definition StateMachineManager_new :: StateMachineManager where
  "StateMachineManager_new =
     \<lparr>m_stateMachineChange = (\<lambda>i. NO_STATE_MACHINE_CHANGE), m_newStateMachine = (\<lambda>i. None)\<rparr>"

definition RequestStateMachineChange ::
  "nat option \<Rightarrow> StateMachineChange \<Rightarrow> StateMachineQueue \<Rightarrow> StateMachineManager
     \<Rightarrow> StateMachineManager option" where
  "RequestStateMachineChange mch change queue mgr =
     (case queue of
        QUEUE q \<Rightarrow>
          (if q < STATE_MACHINE_NUM_QUEUES
           then Some (mgr\<lparr>m_newStateMachine := (m_newStateMachine mgr)(q := mch),
                          m_stateMachineChange := (m_stateMachineChange mgr)(q := change)\<rparr>)
           else None)
      | STATE_MACHINE_QUEUE_ALL \<Rightarrow> None
      | STATE_MACHINE_QUEUE_NULL \<Rightarrow> None)"

section \<open>A machine as its constructor leaves it\<close>

text \<open>
  The constructor StateMachine::StateMachine sets the owner, puts
  STATE_MACHINE_QUEUE_NULL in \<open>m_queue\<close> and calls Initialize; the vectors start empty.
  The owner is alive, the clock is at \<open>now\<close>, and nothing has been sent yet.
\<close>

definition StateMachine_new :: "objectID \<Rightarrow> real \<Rightarrow> real \<Rightarrow> 'u \<Rightarrow> 'u StateMachine" where
  "StateMachine_new owner now frame d =
     Initialize
       \<lparr>owner_ID = owner, owner_MarkedForDeletion = False,
        m_queue = STATE_MACHINE_QUEUE_NULL,
        m_scopeState = 0, m_scopeSubstate = 0, m_currentState = 0, m_updateIteration = 0,
        m_currentSubstate = 0, m_stateChange = NO_STATE_CHANGE, m_nextState = 0,
        m_nextSubstate = 0, m_delayedStateChangeQueued = False,
        m_delayedSubstateChangeQueued = False, m_stateChangeAllowed = False,
        m_registeredEvents = {}, m_timeOnEnterState = 0, m_timeOnEnterSubstate = 0,
        m_ccMessagesToGameObject = 0, m_currentStateNameString = [],
        m_currentSubstateNameString = [], m_broadcastList = [], m_stack = [],
        m_stateVariables = [], m_substateVariables = [],
        g_time_CurTime = now, ONE_FRAME = frame, g_msgroute = [], mgr_requests = [],
        derived = d, calls = []\<rparr>"

text \<open>A transition function that declares no state and handles nothing.\<close>

definition no_handlers :: "unit States" where
  "no_handlers event msg state substate s = (False, [])"

text \<open>A manager with a Push of machine 7 pending on queue 0, and no other request.\<close>

definition push_pending :: StateMachineManager where
  "push_pending =
     \<lparr>m_stateMachineChange = (\<lambda>i. NO_STATE_MACHINE_CHANGE)(0 := STATE_MACHINE_PUSH),
      m_newStateMachine = (\<lambda>i. None)(0 := Some 7)\<rparr>"

text \<open>
  A transition function that handles every event when it is queried for a state without
  a substate, and makes no call.
\<close>

definition handles_in_state :: "unit States" where
  "handles_in_state event msg state substate s = (0 \<le> state \<and> substate = -1, [])"

text \<open>
  A machine that has gone from state 0 to state 1 and into substate 0 of it, each time
  by a request followed by a message, and has then declared state variable 0.
\<close>

definition in_substate :: "unit States \<Rightarrow> unit StateMachine" where
  "in_substate h =
     DeclareVariable 0 STATE_VARIABLE_SCOPE
       (Process h EVENT_Message None
          (ChangeSubstate 0
             (Process h EVENT_Message None
                (ChangeState 1 (StateMachine_new 7 0 (1 / 60) ())))))"

text \<open>
  A machine that has been sent through the states 1 to \<open>n\<close>, one after the other, each
  time by ChangeState followed by a message.
\<close>

fun visit_states :: "nat \<Rightarrow> unit StateMachine \<Rightarrow> unit StateMachine" where
  "visit_states 0 s = s"
| "visit_states (Suc n) s =
     Process no_handlers EVENT_Message None (ChangeState (of_nat (Suc n)) (visit_states n s))"

section \<open>The ladder of queries, in the words of the specification\<close>

text \<open>
  The specification names the queries of an event: the current state with the current
  substate, then the current state with no substate, then the global scope; without a
  current substate the first query is left out.  The state is passed as the source
  passes it, converted to \<open>int\<close>.
\<close>

definition three_tier_ladder :: "'u StateMachine \<Rightarrow> (int \<times> int) list" where
  "three_tier_ladder s =
     (if 0 \<le> m_currentSubstate s
      then [(sint (m_currentState s), m_currentSubstate s), (sint (m_currentState s), -1), (-1, -1)]
      else [(sint (m_currentState s), -1), (-1, -1)])"

section \<open>Reachable machines\<close>

text \<open>
  The machines that arise from Initialize by the public operations, by calls made from
  outside a transition function, and by changes of what lies outside the machine: the
  owner's deletion mark, the queue that the manager assigns, the CC receiver and the
  clock.
\<close>

inductive reachable :: "'u States \<Rightarrow> 'u StateMachine \<Rightarrow> bool" for h :: "'u States" where
  reach_Initialize: "reachable h (Initialize s)"
| reach_Reset: "reachable h s \<Longrightarrow> reachable h (Reset h s)"
| reach_Process: "reachable h s \<Longrightarrow> reachable h (Process h event msg s)"
| reach_Update: "reachable h s \<Longrightarrow> reachable h (Update h s)"
| reach_PerformStateChanges: "reachable h s \<Longrightarrow> reachable h (PerformStateChanges h s)"
| reach_call: "reachable h s \<Longrightarrow> reachable h (apply_api a s)"
| reach_environment:
    "reachable h s \<Longrightarrow>
       reachable h (s\<lparr>owner_MarkedForDeletion := marked, m_queue := queue,
                      m_ccMessagesToGameObject := cc, g_time_CurTime := now\<rparr>)"

section \<open>What a transition function cannot assign\<close>

text \<open>
  \<open>control\<close> collects the fields that none of the calls open to a transition function
  assigns; \<open>pending\<close> is the requested change, which the calls leave alone while
  \<open>m_stateChangeAllowed\<close> is off.
\<close>

definition control ::
  "'u StateMachine \<Rightarrow> 32 word \<times> int \<times> 32 word list \<times> bool \<times> 32 word \<times> 32 word \<times> objectID \<times> bool \<times> States_call list" where
  "control s =
     (m_currentState s, m_currentSubstate s, m_stack s, m_stateChangeAllowed s,
      m_scopeState s, m_scopeSubstate s, owner_ID s, owner_MarkedForDeletion s, calls s)"

definition pending :: "'u StateMachine \<Rightarrow> StateChange \<times> 32 word \<times> int" where
  "pending s = (m_stateChange s, m_nextState s, m_nextSubstate s)"

section \<open>Frame lemmas\<close>

lemmas new_defs =
  StateMachine_new_def Initialize_def DeleteAllStateVariables_def
  DeleteAllSubstateVariables_def

lemmas send_defs =
  g_msgroute_SendMsg_def SendMsgDelayedToMeHelper_def SendMsg_def SendMsgNow_def
  SendMsgToSubstate_def SendMsgToState_def SendMsgToStateMachine_def
  SendMsgToStateMachineNow_def SendMsgToSingleQueue_def SendMsgToSingleQueueNow_def
  SendMsgToAllQueues_def SendMsgToAllQueuesNow_def SendMsgToAllOtherQueues_def
  SendMsgToAllOtherQueuesNow_def SendMsgDelayed_def SendMsgDelayedToSubstate_def
  SendMsgDelayedToState_def SendMsgDelayedToStateMachine_def
  SendMsgDelayedToSingleQueue_def SendMsgDelayedToAllQueues_def
  SendMsgDelayedToAllOtherQueues_def SendMsgBroadcastNow_def SendMsgBroadcastToList_def
  SendMsgBroadcastToListNow_def SendCCMsg_def SetTimerSubstate_def SetTimerState_def
  SetTimerStateMachine_def SetTimerExternal_def StopTimer_def

lemmas request_defs =
  ChangeState_def ChangeSubstate_def PopState_def ChangeStateDelayed_def
  ChangeSubstateDelayed_def

lemmas manager_defs =
  mgr_RequestStateMachineChange_def ResetStateMachine_def ReplaceStateMachine_def
  QueueStateMachine_def RequeueStateMachine_def PushStateMachine_def PopStateMachine_def

lemmas variable_defs =
  DeclareVariable_def SetStateVariable_def BroadcastClearList_def BroadcastAddToList_def

lemma control_other_queues_loop [simp]:
  "control (other_queues_loop delay name data qs s) = control s"
  by (induction qs arbitrary: s) (simp_all add: control_def send_defs)

lemma pending_other_queues_loop [simp]:
  "pending (other_queues_loop delay name data qs s) = pending s"
  by (induction qs arbitrary: s) (simp_all add: pending_def send_defs)

lemma control_broadcast_loop [simp]:
  "control (broadcast_loop delay name data xs s) = control s"
  by (induction xs arbitrary: s) (simp_all add: control_def send_defs)

lemma pending_broadcast_loop [simp]:
  "pending (broadcast_loop delay name data xs s) = pending s"
  by (induction xs arbitrary: s) (simp_all add: pending_def send_defs)

lemma control_apply_change [simp]: "control (apply_change c s) = control s"
  by (cases c) (simp_all add: request_defs send_defs control_def)

lemma control_apply_send [simp]: "control (apply_send c s) = control s"
  by (cases c) (simp_all add: send_defs, simp_all add: control_def)

lemma control_apply_delayed [simp]: "control (apply_delayed c s) = control s"
  by (cases c) (simp_all add: send_defs, simp_all add: control_def)

lemma control_apply_timer [simp]: "control (apply_timer c s) = control s"
  by (cases c) (simp_all add: send_defs Let_def, simp_all add: control_def)

lemma control_apply_manager [simp]: "control (apply_manager c s) = control s"
  by (cases c) (simp_all add: manager_defs control_def)

lemma control_apply_api [simp]: "control (apply_api a s) = control s"
  by (cases a; (simp)?; simp add: variable_defs control_def split: option.splits if_splits)

lemma control_run_calls [simp]: "control (run_calls cs s) = control s"
  by (induction cs arbitrary: s) simp_all

lemma pending_apply_change:
  "\<not> m_stateChangeAllowed s \<Longrightarrow> pending (apply_change c s) = pending s"
  by (cases c) (simp_all add: request_defs)

lemma pending_apply_send [simp]: "pending (apply_send c s) = pending s"
  by (cases c) (simp_all add: send_defs, simp_all add: pending_def)

lemma pending_apply_delayed [simp]: "pending (apply_delayed c s) = pending s"
  by (cases c) (simp_all add: send_defs, simp_all add: pending_def)

lemma pending_apply_timer [simp]: "pending (apply_timer c s) = pending s"
  by (cases c) (simp_all add: send_defs Let_def, simp_all add: pending_def)

lemma pending_apply_manager [simp]: "pending (apply_manager c s) = pending s"
  by (cases c) (simp_all add: manager_defs pending_def)

lemma pending_apply_api:
  "\<not> m_stateChangeAllowed s \<Longrightarrow> pending (apply_api a s) = pending s"
  by (cases a; (simp add: pending_apply_change)?;
      simp add: variable_defs pending_def split: option.splits if_splits)

lemma allowed_of_control:
  "control s' = control s \<Longrightarrow> m_stateChangeAllowed s' = m_stateChangeAllowed s"
  by (simp add: control_def)

lemma pending_run_calls:
  "\<not> m_stateChangeAllowed s \<Longrightarrow> pending (run_calls cs s) = pending s"
proof (induction cs arbitrary: s)
  case Nil
  then show ?case by simp
next
  case (Cons c cs)
  have "\<not> m_stateChangeAllowed (apply_api c s)"
    using Cons.prems allowed_of_control [OF control_apply_api, of c s] by simp
  then show ?case
    using Cons.IH [of "apply_api c s"] Cons.prems by (simp add: pending_apply_api)
qed

lemma fst_States [simp]: "fst (States h e m a b s) = fst (h e m a b s)"
  by (simp add: States_def Let_def split: prod.splits)

lemma control_States:
  "control (snd (States h e m a b s)) =
     control (s\<lparr>calls := calls s @
        [\<lparr>q_event = e, q_state = a, q_substate = b, q_handled = fst (h e m a b s)\<rparr>]\<rparr>)"
proof -
  obtain handled cs where hc: "h e m a b s = (handled, cs)" by (cases "h e m a b s")
  have "control (run_calls cs s) = control s" by simp
  then show ?thesis
    by (simp add: States_def hc control_def Let_def)
qed

lemma pending_States:
  "\<not> m_stateChangeAllowed s \<Longrightarrow> pending (snd (States h e m a b s)) = pending s"
proof -
  assume na: "\<not> m_stateChangeAllowed s"
  obtain handled cs where hc: "h e m a b s = (handled, cs)" by (cases "h e m a b s")
  have "pending (run_calls cs s) = pending s" using na by (rule pending_run_calls)
  then show ?thesis
    by (simp add: States_def hc pending_def Let_def)
qed

lemma States_fields [simp]:
  "m_currentState (snd (States h e m a b s)) = m_currentState s"
  "m_currentSubstate (snd (States h e m a b s)) = m_currentSubstate s"
  "m_stack (snd (States h e m a b s)) = m_stack s"
  "m_stateChangeAllowed (snd (States h e m a b s)) = m_stateChangeAllowed s"
  "m_scopeState (snd (States h e m a b s)) = m_scopeState s"
  "m_scopeSubstate (snd (States h e m a b s)) = m_scopeSubstate s"
  "owner_ID (snd (States h e m a b s)) = owner_ID s"
  "owner_MarkedForDeletion (snd (States h e m a b s)) = owner_MarkedForDeletion s"
  "calls (snd (States h e m a b s)) = calls s @
     [\<lparr>q_event = e, q_state = a, q_substate = b, q_handled = fst (h e m a b s)\<rparr>]"
  using control_States [of h e m a b s] by (simp_all add: control_def)

lemma States_pending_fields:
  assumes "\<not> m_stateChangeAllowed s"
  shows "m_stateChange (snd (States h e m a b s)) = m_stateChange s"
    and "m_nextState (snd (States h e m a b s)) = m_nextState s"
    and "m_nextSubstate (snd (States h e m a b s)) = m_nextSubstate s"
  using pending_States [OF assms, of h e m a b] by (simp_all add: pending_def)

section \<open>The parts of PerformStateChanges\<close>

lemma exit_events_fields [simp]:
  "m_currentState (exit_events h s) = m_currentState s"
  "m_currentSubstate (exit_events h s) = m_currentSubstate s"
  "m_stack (exit_events h s) = m_stack s"
  "m_scopeState (exit_events h s) = m_scopeState s"
  "m_scopeSubstate (exit_events h s) = m_scopeSubstate s"
  "owner_MarkedForDeletion (exit_events h s) = owner_MarkedForDeletion s"
  "m_stateChangeAllowed (exit_events h s) = False"
  by (simp_all add: exit_events_def Let_def)

lemma exit_events_pending [simp]:
  "m_stateChange (exit_events h s) = m_stateChange s"
  "m_nextState (exit_events h s) = m_nextState s"
  "m_nextSubstate (exit_events h s) = m_nextSubstate s"
  by (simp_all add: exit_events_def Let_def States_pending_fields)

lemma calls_exit_events: "\<exists>rest. calls (exit_events h s) = calls s @ rest"
  by (simp add: exit_events_def Let_def)

lemma new_scope_fields [simp]:
  "m_currentState (new_scope s) = m_currentState s"
  "m_currentSubstate (new_scope s) = m_currentSubstate s"
  "m_stack (new_scope s) = m_stack s"
  "owner_MarkedForDeletion (new_scope s) = owner_MarkedForDeletion s"
  "calls (new_scope s) = calls s"
  "m_scopeSubstate (new_scope s) = m_scopeSubstate s + 1"
  by (simp_all add: new_scope_def Let_def DeleteAllStateVariables_def
      DeleteAllSubstateVariables_def)

lemma enter_events_fields [simp]:
  "m_currentState (enter_events h s) = m_currentState s"
  "m_currentSubstate (enter_events h s) = m_currentSubstate s"
  "m_stack (enter_events h s) = m_stack s"
  "m_scopeState (enter_events h s) = m_scopeState s"
  "m_scopeSubstate (enter_events h s) = m_scopeSubstate s"
  "owner_MarkedForDeletion (enter_events h s) = owner_MarkedForDeletion s"
  by (simp_all add: enter_events_def Let_def)

lemma calls_enter_events: "\<exists>rest. calls (enter_events h s) = calls s @ rest"
  by (simp add: enter_events_def Let_def)

lemma switch_stateChange_fields [simp]:
  "owner_MarkedForDeletion (switch_stateChange s) = owner_MarkedForDeletion s"
  "calls (switch_stateChange s) = calls s"
  "m_scopeSubstate (switch_stateChange s) = m_scopeSubstate s"
  "m_scopeState (switch_stateChange s) = m_scopeState s"
  by (simp_all add: switch_stateChange_def Let_def split: StateChange.splits)

lemma length_stack_switch:
  "length (m_stack s) \<le> MAX_STATE_STACK_SIZE \<Longrightarrow>
     length (m_stack (switch_stateChange s)) \<le> MAX_STATE_STACK_SIZE"
  by (auto simp add: switch_stateChange_def Let_def split: StateChange.splits)

lemma switch_evicts_oldest:
  "m_stateChange s = STATE_CHANGE \<Longrightarrow> m_nextSubstate s < 0 \<Longrightarrow>
   length (m_stack s) = MAX_STATE_STACK_SIZE \<Longrightarrow>
     m_stack (switch_stateChange s) = tl (m_stack s) @ [m_currentState s]"
  by (cases "m_stack s") (simp_all add: switch_stateChange_def Let_def MAX_STATE_STACK_SIZE_def)

lemma switch_pop_empty:
  "m_stateChange s = STATE_POP \<Longrightarrow> m_stack s = [] \<Longrightarrow> switch_stateChange s = s"
  by (simp add: switch_stateChange_def)

lemma length_stack_body:
  "length (m_stack s) \<le> MAX_STATE_STACK_SIZE \<Longrightarrow>
     length (m_stack (PerformStateChanges_body h s)) \<le> MAX_STATE_STACK_SIZE"
  by (simp add: PerformStateChanges_body_def length_stack_switch)

lemma length_stack_loop:
  "length (m_stack s) \<le> MAX_STATE_STACK_SIZE \<Longrightarrow>
     length (m_stack (PerformStateChanges_loop h n s)) \<le> MAX_STATE_STACK_SIZE"
proof (induction h n s rule: PerformStateChanges_loop.induct)
  case (1 h safetyCount s)
  show ?case
  proof (cases "m_stateChange s \<noteq> NO_STATE_CHANGE \<and> 0 \<le> safetyCount - 1")
    case True
    then show ?thesis
      using "1.IH" "1.prems" length_stack_body [of s h]
      by (subst PerformStateChanges_loop.simps) simp
  next
    case False
    then show ?thesis using "1.prems"
      by (subst PerformStateChanges_loop.simps) auto
  qed
qed

lemma stack_of_control: "control s' = control s \<Longrightarrow> m_stack s' = m_stack s"
  by (simp add: control_def)

lemma Process_cc_control [simp]: "control (Process_cc event msg s) = control s"
  by (simp add: Process_cc_def SendCCMsg_def g_msgroute_SendMsg_def control_def
      split: option.splits)

lemma Process_ladder_fields [simp]:
  "m_stack (snd (Process_ladder h event msg s)) = m_stack s"
  "m_currentState (snd (Process_ladder h event msg s)) = m_currentState s"
  "m_currentSubstate (snd (Process_ladder h event msg s)) = m_currentSubstate s"
  "owner_MarkedForDeletion (snd (Process_ladder h event msg s)) = owner_MarkedForDeletion s"
  by (simp_all add: Process_ladder_def Let_def case_prod_beta)

lemma Update_ladder_fields [simp]:
  "m_stack (snd (Update_ladder h s)) = m_stack s"
  "m_currentState (snd (Update_ladder h s)) = m_currentState s"
  "m_currentSubstate (snd (Update_ladder h s)) = m_currentSubstate s"
  "owner_MarkedForDeletion (snd (Update_ladder h s)) = owner_MarkedForDeletion s"
  by (simp_all add: Update_ladder_def Let_def case_prod_beta)

section \<open>The bound on the stack\<close>

lemma length_stack_PerformStateChanges:
  "length (m_stack s) \<le> MAX_STATE_STACK_SIZE \<Longrightarrow>
     length (m_stack (PerformStateChanges h s)) \<le> MAX_STATE_STACK_SIZE"
  by (simp add: PerformStateChanges_def length_stack_loop)

lemma length_stack_Process:
  "length (m_stack s) \<le> MAX_STATE_STACK_SIZE \<Longrightarrow>
     length (m_stack (Process h event msg s)) \<le> MAX_STATE_STACK_SIZE"
  using stack_of_control [OF Process_cc_control, of event msg s]
  by (simp add: Process_def length_stack_PerformStateChanges)

lemma length_stack_Update:
  "length (m_stack s) \<le> MAX_STATE_STACK_SIZE \<Longrightarrow>
     length (m_stack (Update h s)) \<le> MAX_STATE_STACK_SIZE"
  by (simp add: Update_def length_stack_PerformStateChanges)

lemma stack_Initialize [simp]: "m_stack (Initialize s) = []"
  by (simp add: Initialize_def DeleteAllStateVariables_def DeleteAllSubstateVariables_def)

lemma length_stack_Reset:
  "length (m_stack (Reset h s)) \<le> MAX_STATE_STACK_SIZE"
  by (simp add: Reset_def length_stack_Process)

lemma reachable_stack_bounded:
  "reachable h s \<Longrightarrow> length (m_stack s) \<le> MAX_STATE_STACK_SIZE"
proof (induction rule: reachable.induct)
  case (reach_Initialize s)
  show ?case by simp
next
  case (reach_Reset s)
  show ?case by (rule length_stack_Reset)
next
  case (reach_Process s event msg)
  then show ?case by (simp add: length_stack_Process)
next
  case (reach_Update s)
  then show ?case by (simp add: length_stack_Update)
next
  case (reach_PerformStateChanges s)
  then show ?case by (simp add: length_stack_PerformStateChanges)
next
  case (reach_call s a)
  then show ?case using stack_of_control [OF control_apply_api, of a s] by simp
next
  case (reach_environment s marked queue cc now)
  then show ?case by simp
qed

section \<open>The log of queries\<close>

lemma calls_body_extends: "\<exists>rest. calls (PerformStateChanges_body h s) = calls s @ rest"
proof -
  obtain r1 where r1: "calls (exit_events h s) = calls s @ r1"
    using calls_exit_events by blast
  obtain r2 where r2:
    "calls (enter_events h (new_scope (switch_stateChange (exit_events h s)))) =
       calls (new_scope (switch_stateChange (exit_events h s))) @ r2"
    using calls_enter_events by blast
  show ?thesis
    by (simp add: PerformStateChanges_body_def r2 r1)
qed

lemma calls_loop_extends: "\<exists>rest. calls (PerformStateChanges_loop h n s) = calls s @ rest"
proof (induction h n s rule: PerformStateChanges_loop.induct)
  case (1 h safetyCount s)
  show ?case
  proof (cases "m_stateChange s \<noteq> NO_STATE_CHANGE \<and> 0 \<le> safetyCount - 1")
    case True
    obtain r1 where r1: "calls (PerformStateChanges_body h s) = calls s @ r1"
      using calls_body_extends by blast
    obtain r2 where r2:
      "calls (PerformStateChanges_loop h (safetyCount - 1) (PerformStateChanges_body h s)) =
         calls (PerformStateChanges_body h s) @ r2"
      using "1.IH" True by blast
    show ?thesis
      using True by (subst PerformStateChanges_loop.simps) (simp add: r1 r2)
  next
    case False
    then show ?thesis
      by (subst PerformStateChanges_loop.simps) auto
  qed
qed

lemma Process_ladder_explicit:
  "Process_ladder h event msg s =
     (if 0 \<le> m_currentSubstate s
      then (if fst (h event msg (sint (m_currentState s)) (m_currentSubstate s) s)
            then States h event msg (sint (m_currentState s)) (m_currentSubstate s) s
            else (if fst (h event msg (sint (m_currentState s)) (-1)
                         (snd (States h event msg (sint (m_currentState s)) (m_currentSubstate s) s)))
                  then States h event msg (sint (m_currentState s)) (-1)
                         (snd (States h event msg (sint (m_currentState s)) (m_currentSubstate s) s))
                  else States h event msg (-1) (-1)
                         (snd (States h event msg (sint (m_currentState s)) (-1)
                            (snd (States h event msg (sint (m_currentState s)) (m_currentSubstate s) s))))))
      else (if fst (h event msg (sint (m_currentState s)) (-1) s)
            then States h event msg (sint (m_currentState s)) (-1) s
            else States h event msg (-1) (-1)
                   (snd (States h event msg (sint (m_currentState s)) (-1) s))))"
  by (simp add: Process_ladder_def Let_def case_prod_beta prod_eq_iff)

lemma ladder_trace:
  "let t = snd (Process_ladder h event msg s);
       qs = drop (length (calls s)) (calls t)
   in calls t = calls s @ qs
    \<and> qs \<noteq> []
    \<and> map (\<lambda>c. (q_event c, q_state c, q_substate c)) qs =
        take (length qs) (map (\<lambda>(a, b). (event, a, b)) (three_tier_ladder s))
    \<and> (\<forall>c \<in> set (butlast qs). \<not> q_handled c)
    \<and> (length qs < length (three_tier_ladder s) \<longrightarrow> q_handled (last qs))"
  by (simp add: Process_ladder_explicit three_tier_ladder_def Let_def)

lemma calls_PerformStateChanges_extends:
  "\<exists>rest. calls (PerformStateChanges h s) = calls s @ rest"
  by (simp add: PerformStateChanges_def calls_loop_extends)

lemma Process_cc_fields [simp]:
  "calls (Process_cc event msg s) = calls s"
  "m_currentState (Process_cc event msg s) = m_currentState s"
  "m_currentSubstate (Process_cc event msg s) = m_currentSubstate s"
  using Process_cc_control [of event msg s] by (simp_all add: control_def)

section \<open>Evaluation on the example machines\<close>

lemmas eval_defs =
  new_defs request_defs Process_def Process_cc_def Process_ladder_def PerformStateChanges_def
  PerformStateChanges_loop.simps PerformStateChanges_body_def exit_events_def
  switch_stateChange_def new_scope_def enter_events_def States_def no_handlers_def
  MAX_STATE_STACK_SIZE_def Let_def REGISTERED_EVENT_STATE_def REGISTERED_EVENT_STATEMACHINE_def
  REGISTERED_EVENT_UPDATE_def Update_def Update_ladder_def

lemma in_substate_handles [simp]:
  "m_currentState (in_substate handles_in_state) = 1"
  "m_currentSubstate (in_substate handles_in_state) = 0"
  "calls (in_substate handles_in_state) =
     [\<lparr>q_event = EVENT_Message, q_state = 0, q_substate = -1, q_handled = True\<rparr>,
      \<lparr>q_event = EVENT_Probe, q_state = 1, q_substate = -1, q_handled = True\<rparr>,
      \<lparr>q_event = EVENT_Message, q_state = 1, q_substate = -1, q_handled = True\<rparr>,
      \<lparr>q_event = EVENT_Probe, q_state = 1, q_substate = 0, q_handled = False\<rparr>]"
  "owner_MarkedForDeletion (in_substate handles_in_state) = False"
  by (simp_all add: in_substate_def handles_in_state_def DeclareVariable_def eval_defs)

lemma reachable_visit_states:
  "reachable no_handlers s \<Longrightarrow> reachable no_handlers (visit_states n s)"
proof (induction n)
  case 0
  then show ?case by simp
next
  case (Suc n)
  have "reachable no_handlers
          (apply_api (Change (Call_ChangeState (of_nat (Suc n)))) (visit_states n s))"
    using Suc by (intro reach_call) simp
  then have "reachable no_handlers
     (Process no_handlers EVENT_Message None
        (apply_api (Change (Call_ChangeState (of_nat (Suc n)))) (visit_states n s)))"
    by (rule reach_Process)
  then show ?case by simp
qed

lemma visit10:
  "m_stack (visit_states 10 (StateMachine_new 7 0 (1 / 60) ())) = [0, 1, 2, 3, 4, 5, 6, 7, 8, 9]"
  "m_currentState (visit_states 10 (StateMachine_new 7 0 (1 / 60) ())) = 10"
  "m_stateChangeAllowed (visit_states 10 (StateMachine_new 7 0 (1 / 60) ()))"
  by (simp_all add: eval_nat_numeral eval_defs)

section \<open>The ladder of Process\<close>

text \<open>
  Claim C1.  When the owner is not marked for deletion, Process queries the transition
  function down the ladder: the queries it logs before PerformStateChanges runs are a
  non-empty initial part of the ladder (current state and current substate, current
  state and -1, -1 and -1, the first of these only if there is a current substate),
  all for the event that is processed; every query but the last answered
  \<open>handled = false\<close>, and if the queries stop before the end of the ladder the last one
  answered \<open>handled = true\<close>.  What Process logs afterwards is logged by
  PerformStateChanges.  The router is outside the model: a message sent for immediate
  delivery from within a query is recorded, not delivered.
\<close>

theorem Process_queries_ladder:
  assumes "\<not> owner_MarkedForDeletion s"
  shows "let t = snd (Process_ladder h event msg (Process_cc event msg s));
             qs = drop (length (calls s)) (calls t)
         in calls t = calls s @ qs
          \<and> (\<exists>rest. calls (Process h event msg s) = calls t @ rest)
          \<and> qs \<noteq> []
          \<and> map (\<lambda>c. (q_event c, q_state c, q_substate c)) qs =
              take (length qs) (map (\<lambda>(a, b). (event, a, b)) (three_tier_ladder s))
          \<and> (\<forall>c \<in> set (butlast qs). \<not> q_handled c)
          \<and> (length qs < length (three_tier_ladder s) \<longrightarrow> q_handled (last qs))"
proof -
  have same: "three_tier_ladder (Process_cc event msg s) = three_tier_ladder s"
    by (simp add: three_tier_ladder_def)
  have run: "Process h event msg s =
      PerformStateChanges h (snd (Process_ladder h event msg (Process_cc event msg s)))"
    using assms by (simp add: Process_def)
  have L:
    "calls (snd (Process_ladder h event msg (Process_cc event msg s))) =
       calls s @ drop (length (calls s))
         (calls (snd (Process_ladder h event msg (Process_cc event msg s))))
     \<and> drop (length (calls s))
         (calls (snd (Process_ladder h event msg (Process_cc event msg s)))) \<noteq> []
     \<and> map (\<lambda>c. (q_event c, q_state c, q_substate c))
         (drop (length (calls s))
            (calls (snd (Process_ladder h event msg (Process_cc event msg s))))) =
        take (length (drop (length (calls s))
                (calls (snd (Process_ladder h event msg (Process_cc event msg s))))))
          (map (\<lambda>(a, b). (event, a, b)) (three_tier_ladder s))
     \<and> (\<forall>c \<in> set (butlast (drop (length (calls s))
                (calls (snd (Process_ladder h event msg (Process_cc event msg s)))))).
           \<not> q_handled c)
     \<and> (length (drop (length (calls s))
                (calls (snd (Process_ladder h event msg (Process_cc event msg s)))))
            < length (three_tier_ladder s) \<longrightarrow>
          q_handled (last (drop (length (calls s))
                (calls (snd (Process_ladder h event msg (Process_cc event msg s)))))))"
    using ladder_trace [of h event msg "Process_cc event msg s"]
    unfolding Let_def same Process_cc_fields .
  have R: "\<exists>rest. calls (Process h event msg s) =
      calls (snd (Process_ladder h event msg (Process_cc event msg s))) @ rest"
    unfolding run by (rule calls_PerformStateChanges_extends)
  show ?thesis
    unfolding Let_def using L R by blast
qed

theorem Process_queries_ladder_witness:
  "\<not> owner_MarkedForDeletion (in_substate handles_in_state)
   \<and> three_tier_ladder (in_substate handles_in_state) = [(1, 0), (1, -1), (-1, -1)]
   \<and> calls (snd (Process_ladder handles_in_state EVENT_Message None
               (Process_cc EVENT_Message None (in_substate handles_in_state)))) =
       calls (in_substate handles_in_state) @
       [\<lparr>q_event = EVENT_Message, q_state = 1, q_substate = 0, q_handled = False\<rparr>,
        \<lparr>q_event = EVENT_Message, q_state = 1, q_substate = -1, q_handled = True\<rparr>]"
  using Process_queries_ladder [of "in_substate handles_in_state" handles_in_state
          EVENT_Message None]
  by (simp add: three_tier_ladder_def Process_ladder_explicit Process_cc_def States_def
      handles_in_state_def Let_def)

section \<open>A pop on an empty stack\<close>

text \<open>
  On a new machine with one substate variable, PopState followed by PerformStateChanges
  adds one to \<open>m_scopeSubstate\<close>, deletes the substate variable and queries the
  transition function with EVENT_Probe.
\<close>

theorem pop_on_empty_stack_counterexample:
  "m_stateChange (PopState (DeclareVariable 0 SUBSTATE_VARIABLE_SCOPE
      (StateMachine_new 7 0 (1 / 60) ()))) = STATE_POP
   \<and> m_stack (PopState (DeclareVariable 0 SUBSTATE_VARIABLE_SCOPE
      (StateMachine_new 7 0 (1 / 60) ()))) = []
   \<and> m_scopeSubstate (PopState (DeclareVariable 0 SUBSTATE_VARIABLE_SCOPE
      (StateMachine_new 7 0 (1 / 60) ()))) = 0
   \<and> m_substateVariables (PopState (DeclareVariable 0 SUBSTATE_VARIABLE_SCOPE
      (StateMachine_new 7 0 (1 / 60) ()))) = [Data_Unset]
   \<and> calls (PopState (DeclareVariable 0 SUBSTATE_VARIABLE_SCOPE
      (StateMachine_new 7 0 (1 / 60) ()))) = []
   \<and> m_scopeSubstate (PerformStateChanges no_handlers
        (PopState (DeclareVariable 0 SUBSTATE_VARIABLE_SCOPE
           (StateMachine_new 7 0 (1 / 60) ())))) = 1
   \<and> m_substateVariables (PerformStateChanges no_handlers
        (PopState (DeclareVariable 0 SUBSTATE_VARIABLE_SCOPE
           (StateMachine_new 7 0 (1 / 60) ())))) = []
   \<and> calls (PerformStateChanges no_handlers
        (PopState (DeclareVariable 0 SUBSTATE_VARIABLE_SCOPE
           (StateMachine_new 7 0 (1 / 60) ())))) =
       [\<lparr>q_event = EVENT_Probe, q_state = 0, q_substate = -1, q_handled = False\<rparr>]"
  by (simp add: DeclareVariable_def eval_defs)

text \<open>
  Claim C2, amended.  In a release build, if an iteration of PerformStateChanges applies
  a Pop while \<open>m_stack\<close> is empty, nothing is popped: \<open>m_currentState\<close> and
  \<open>m_currentSubstate\<close> are the same after the iteration as before, and the stack is
  still empty, whatever the transition function does in the events of that iteration.
\<close>

theorem pop_on_empty_stack_keeps_state:
  assumes "m_stateChange s = STATE_POP" and "m_stack s = []"
  shows "m_currentState (PerformStateChanges_body h s) = m_currentState s
       \<and> m_currentSubstate (PerformStateChanges_body h s) = m_currentSubstate s
       \<and> m_stack (PerformStateChanges_body h s) = []"
proof -
  have "switch_stateChange (exit_events h s) = exit_events h s"
    using assms by (simp add: switch_pop_empty)
  then show ?thesis
    using assms by (simp add: PerformStateChanges_body_def)
qed

theorem pop_on_empty_stack_keeps_state_witness:
  "m_stateChange (PopState (StateMachine_new 7 0 (1 / 60) ())) = STATE_POP
   \<and> m_stack (PopState (StateMachine_new 7 0 (1 / 60) ())) = []
   \<and> m_currentState (PerformStateChanges_body no_handlers
        (PopState (StateMachine_new 7 0 (1 / 60) ()))) = 0
   \<and> m_currentSubstate (PerformStateChanges_body no_handlers
        (PopState (StateMachine_new 7 0 (1 / 60) ()))) = -1
   \<and> m_stack (PerformStateChanges_body no_handlers
        (PopState (StateMachine_new 7 0 (1 / 60) ()))) = []"
  using pop_on_empty_stack_keeps_state
          [of "PopState (StateMachine_new 7 0 (1 / 60) ())" no_handlers]
  by (simp add: PopState_def new_defs)

section \<open>The scope of a state timer\<close>

text \<open>
  Claim C3.  The message that SetTimerState sends carries the rule SCOPE_TO_SUBSTATE and
  the value of \<open>m_scopeSubstate\<close>, not SCOPE_TO_STATE and \<open>m_scopeState\<close>: what
  SetTimerState hands to the router is what SetTimerSubstate hands to it.
\<close>

theorem SetTimerState_scoped_to_substate:
  "g_msgroute (SetTimerState delay name s) =
     g_msgroute s @
     [Router_SendMsg
        \<lparr>msg_delay = (if delay < ONE_FRAME s then ONE_FRAME s else delay), msg_name = name,
         msg_receiver = owner_ID s, msg_sender = owner_ID s,
         msg_rule = SCOPE_TO_SUBSTATE, msg_scope = m_scopeSubstate s,
         msg_queue = m_queue s,
         msg_data = MSG_Data_Float (if delay < ONE_FRAME s then ONE_FRAME s else delay),
         msg_timer = True, msg_cc = False\<rparr>]
   \<and> SetTimerState delay name s = SetTimerSubstate delay name s"
  by (simp add: SetTimerState_def SetTimerSubstate_def SendMsgDelayedToMeHelper_def
      g_msgroute_SendMsg_def Let_def)

section \<open>A second request while one is pending\<close>

text \<open>
  With ChangeState(1) pending on a new machine, a second ChangeState, a PopState and a
  ChangeSubstate each replace what was requested.
\<close>

theorem second_request_counterexample:
  "m_stateChange (ChangeState 1 (StateMachine_new 7 0 (1 / 60) ())) \<noteq> NO_STATE_CHANGE
   \<and> m_nextState (ChangeState 2 (ChangeState 1 (StateMachine_new 7 0 (1 / 60) ())))
       \<noteq> m_nextState (ChangeState 1 (StateMachine_new 7 0 (1 / 60) ()))
   \<and> m_stateChange (PopState (ChangeState 1 (StateMachine_new 7 0 (1 / 60) ())))
       \<noteq> m_stateChange (ChangeState 1 (StateMachine_new 7 0 (1 / 60) ()))
   \<and> m_nextSubstate (ChangeSubstate 3 (ChangeState 1 (StateMachine_new 7 0 (1 / 60) ())))
       \<noteq> m_nextSubstate (ChangeState 1 (StateMachine_new 7 0 (1 / 60) ()))"
  by (simp add: ChangeState_def PopState_def ChangeSubstate_def new_defs)

text \<open>
  Claim C4, amended.  If a state change is already pending, a call of ChangeState,
  ChangeSubstate or PopState is rejected, leaving \<open>m_stateChange\<close>, \<open>m_nextState\<close> and
  \<open>m_nextSubstate\<close> as they were, exactly when \<open>m_stateChangeAllowed\<close> is off.
  Otherwise the call replaces the pending request: ChangeState(n) requests state \<open>n\<close>
  with no substate, ChangeSubstate(n) requests substate \<open>n\<close> of the current state, and
  PopState requests a pop and leaves \<open>m_nextState\<close> and \<open>m_nextSubstate\<close> as the earlier
  request set them.
\<close>

theorem second_request_replaces_pending:
  assumes "m_stateChange s \<noteq> NO_STATE_CHANGE"
  shows "(m_stateChange (ChangeState n s), m_nextState (ChangeState n s),
          m_nextSubstate (ChangeState n s)) =
           (if m_stateChangeAllowed s then (STATE_CHANGE, n, -1)
            else (m_stateChange s, m_nextState s, m_nextSubstate s))
       \<and> (m_stateChange (ChangeSubstate n s), m_nextState (ChangeSubstate n s),
          m_nextSubstate (ChangeSubstate n s)) =
           (if m_stateChangeAllowed s then (STATE_CHANGE, m_currentState s, sint n)
            else (m_stateChange s, m_nextState s, m_nextSubstate s))
       \<and> (m_stateChange (PopState s), m_nextState (PopState s), m_nextSubstate (PopState s)) =
           (if m_stateChangeAllowed s then (STATE_POP, m_nextState s, m_nextSubstate s)
            else (m_stateChange s, m_nextState s, m_nextSubstate s))"
  by (simp add: ChangeState_def ChangeSubstate_def PopState_def)

theorem second_request_replaces_pending_witness:
  "m_stateChange (ChangeState 1 (StateMachine_new 7 0 (1 / 60) ())) \<noteq> NO_STATE_CHANGE
   \<and> m_nextState (ChangeState 2 (ChangeState 1 (StateMachine_new 7 0 (1 / 60) ()))) = 2
   \<and> m_nextSubstate (ChangeSubstate 3 (ChangeState 1 (StateMachine_new 7 0 (1 / 60) ()))) = 3
   \<and> m_stateChange (PopState (ChangeState 1 (StateMachine_new 7 0 (1 / 60) ()))) = STATE_POP"
  using second_request_replaces_pending
          [of "ChangeState 1 (StateMachine_new 7 0 (1 / 60) ())" 2]
        second_request_replaces_pending
          [of "ChangeState 1 (StateMachine_new 7 0 (1 / 60) ())" 3]
  by (simp add: ChangeState_def new_defs)

section \<open>A pop after a change of substate\<close>

text \<open>
  Claim C5.  A machine goes from state 0 to state 1, then into substate 0 of state 1,
  and declares a state variable; PopState is then requested and applied.  The pop
  returns to state 0 with no substate and empties the stack, yet \<open>m_scopeState\<close> is
  still 1 and the state variable is still there: PopState leaves \<open>m_nextSubstate\<close> as
  ChangeSubstate set it, and PerformStateChanges takes the pop for a change of substate.
\<close>

theorem pop_after_substate_keeps_state_scope:
  "m_stack (in_substate no_handlers) = [0]
   \<and> m_currentState (in_substate no_handlers) = 1
   \<and> m_currentSubstate (in_substate no_handlers) = 0
   \<and> m_scopeState (in_substate no_handlers) = 1
   \<and> m_stateVariables (in_substate no_handlers) = [Data_Unset]
   \<and> m_stateChange (PopState (in_substate no_handlers)) = STATE_POP
   \<and> m_currentState (PerformStateChanges no_handlers (PopState (in_substate no_handlers))) = 0
   \<and> m_currentSubstate (PerformStateChanges no_handlers (PopState (in_substate no_handlers)))
       = -1
   \<and> m_stack (PerformStateChanges no_handlers (PopState (in_substate no_handlers))) = []
   \<and> m_scopeState (PerformStateChanges no_handlers (PopState (in_substate no_handlers))) = 1
   \<and> m_stateVariables (PerformStateChanges no_handlers (PopState (in_substate no_handlers)))
       = [Data_Unset]"
  by (simp add: in_substate_def DeclareVariable_def eval_defs)

section \<open>Update and the registered events\<close>

text \<open>
  A new machine has no registered event.  With ChangeState(1) pending, Update leaves
  the machine as it is, in state 0 with the change still pending, where
  PerformStateChanges would have applied the change.
\<close>

theorem Update_without_handler_counterexample:
  "\<not> owner_MarkedForDeletion (ChangeState 1 (StateMachine_new 7 0 (1 / 60) ()))
   \<and> m_stateChange (ChangeState 1 (StateMachine_new 7 0 (1 / 60) ())) = STATE_CHANGE
   \<and> m_registeredEvents (ChangeState 1 (StateMachine_new 7 0 (1 / 60) ())) = {}
   \<and> Update no_handlers (ChangeState 1 (StateMachine_new 7 0 (1 / 60) ()))
       = ChangeState 1 (StateMachine_new 7 0 (1 / 60) ())
   \<and> m_currentState (Update no_handlers (ChangeState 1 (StateMachine_new 7 0 (1 / 60) ())))
       = 0
   \<and> m_currentState (PerformStateChanges no_handlers
        (ChangeState 1 (StateMachine_new 7 0 (1 / 60) ()))) = 1
   \<and> m_stateChange (PerformStateChanges no_handlers
        (ChangeState 1 (StateMachine_new 7 0 (1 / 60) ()))) = NO_STATE_CHANGE"
  by (simp add: eval_defs)

text \<open>
  Claim C6, amended.  A call of Update on a machine whose owner is not marked for
  deletion invokes PerformStateChanges after the Update dispatch, whether or not the
  event was handled, if at least one of the three Update flags is on in
  \<open>m_registeredEvents\<close>; if none is on, Update does nothing, and a pending state change
  stays pending.
\<close>

theorem Update_gated_by_registered_events:
  assumes "\<not> owner_MarkedForDeletion s"
  shows "Update h s =
           (if m_registeredEvents s \<inter> REGISTERED_EVENT_UPDATE \<noteq> {}
            then PerformStateChanges h (snd (Update_ladder h s))
            else s)"
  using assms by (simp add: Update_def)

theorem Update_gated_by_registered_events_witness:
  "\<not> owner_MarkedForDeletion
       (apply_api (Call_Register {REGISTERED_EVENT_UPDATE_STATEMACHINE})
          (ChangeState 1 (StateMachine_new 7 0 (1 / 60) ())))
   \<and> m_currentState (Update no_handlers
        (apply_api (Call_Register {REGISTERED_EVENT_UPDATE_STATEMACHINE})
           (ChangeState 1 (StateMachine_new 7 0 (1 / 60) ())))) = 1
   \<and> m_stateChange (Update no_handlers
        (apply_api (Call_Register {REGISTERED_EVENT_UPDATE_STATEMACHINE})
           (ChangeState 1 (StateMachine_new 7 0 (1 / 60) ())))) = NO_STATE_CHANGE
   \<and> calls (Update no_handlers
        (apply_api (Call_Register {REGISTERED_EVENT_UPDATE_STATEMACHINE})
           (ChangeState 1 (StateMachine_new 7 0 (1 / 60) ())))) =
       [\<lparr>q_event = EVENT_Update, q_state = -1, q_substate = -1, q_handled = False\<rparr>,
        \<lparr>q_event = EVENT_Probe, q_state = 1, q_substate = -1, q_handled = False\<rparr>]"
  using Update_gated_by_registered_events
          [of "apply_api (Call_Register {REGISTERED_EVENT_UPDATE_STATEMACHINE})
                 (ChangeState 1 (StateMachine_new 7 0 (1 / 60) ()))" no_handlers]
  by (simp add: eval_defs)

section \<open>The state stack is bounded\<close>

text \<open>
  Claim C7.  In every reachable machine the stack holds at most MAX_STATE_STACK_SIZE = 10
  states; and when a change of state (not of substate) is applied to a machine whose
  stack is full, the stack afterwards is the old one without its front entry, followed
  by the state that was current.
\<close>

theorem state_stack_bounded:
  assumes "reachable h s"
  shows "length (m_stack s) \<le> MAX_STATE_STACK_SIZE
       \<and> (m_stateChange s = STATE_CHANGE \<and> m_nextSubstate s < 0
            \<and> length (m_stack s) = MAX_STATE_STACK_SIZE \<longrightarrow>
          m_stack (PerformStateChanges_body h s) = tl (m_stack s) @ [m_currentState s])"
  using assms
  by (simp add: reachable_stack_bounded PerformStateChanges_body_def switch_evicts_oldest)

theorem state_stack_bounded_witness:
  "reachable no_handlers (ChangeState 11 (visit_states 10 (StateMachine_new 7 0 (1 / 60) ())))
   \<and> length (m_stack (ChangeState 11 (visit_states 10 (StateMachine_new 7 0 (1 / 60) ()))))
       = MAX_STATE_STACK_SIZE
   \<and> m_stateChange (ChangeState 11 (visit_states 10 (StateMachine_new 7 0 (1 / 60) ())))
       = STATE_CHANGE
   \<and> m_nextSubstate (ChangeState 11 (visit_states 10 (StateMachine_new 7 0 (1 / 60) ()))) < 0
   \<and> m_stack (PerformStateChanges_body no_handlers
        (ChangeState 11 (visit_states 10 (StateMachine_new 7 0 (1 / 60) ()))))
       = [1, 2, 3, 4, 5, 6, 7, 8, 9, 10]"
proof -
  have "reachable no_handlers (StateMachine_new 7 0 (1 / 60) ())"
    unfolding StateMachine_new_def by (rule reach_Initialize)
  then have "reachable no_handlers (visit_states 10 (StateMachine_new 7 0 (1 / 60) ()))"
    by (rule reachable_visit_states)
  then have "reachable no_handlers
      (apply_api (Change (Call_ChangeState 11))
         (visit_states 10 (StateMachine_new 7 0 (1 / 60) ())))"
    by (rule reach_call)
  then have r: "reachable no_handlers
      (ChangeState 11 (visit_states 10 (StateMachine_new 7 0 (1 / 60) ())))"
    by simp
  show ?thesis
    using r state_stack_bounded [OF r]
    by (simp add: ChangeState_def visit10 MAX_STATE_STACK_SIZE_def)
qed

section \<open>A second request to the manager while one is pending\<close>

text \<open>
  With a Push of machine 7 pending on queue 0, a request to Pop is accepted and takes
  the place of the Push: the pending kind and the pending machine both change.
\<close>

theorem second_machine_request_counterexample:
  "m_stateMachineChange push_pending 0 = STATE_MACHINE_PUSH
   \<and> m_newStateMachine push_pending 0 = Some 7
   \<and> RequestStateMachineChange None STATE_MACHINE_POP (QUEUE 0) push_pending =
       Some (push_pending
               \<lparr>m_newStateMachine := (m_newStateMachine push_pending)(0 := None),
                m_stateMachineChange :=
                  (m_stateMachineChange push_pending)(0 := STATE_MACHINE_POP)\<rparr>)
   \<and> m_stateMachineChange
        (push_pending
           \<lparr>m_newStateMachine := (m_newStateMachine push_pending)(0 := None),
            m_stateMachineChange :=
              (m_stateMachineChange push_pending)(0 := STATE_MACHINE_POP)\<rparr>) 0
       \<noteq> m_stateMachineChange push_pending 0
   \<and> m_newStateMachine
        (push_pending
           \<lparr>m_newStateMachine := (m_newStateMachine push_pending)(0 := None),
            m_stateMachineChange :=
              (m_stateMachineChange push_pending)(0 := STATE_MACHINE_POP)\<rparr>) 0
       \<noteq> m_newStateMachine push_pending 0"
  by (simp add: RequestStateMachineChange_def push_pending_def STATE_MACHINE_NUM_QUEUES_def)

text \<open>
  Claim C8, amended.  In a release build, if a machine-change request is already pending
  on a queue of the bank, a second call of RequestStateMachineChange for that queue is
  accepted and replaces it: afterwards the pending kind and the pending machine of that
  queue are those of the second call, and the other queues are as they were.
\<close>

theorem second_machine_request_replaces_pending:
  assumes "q < STATE_MACHINE_NUM_QUEUES"
    and "m_stateMachineChange mgr q \<noteq> NO_STATE_MACHINE_CHANGE"
  shows "\<exists>mgr'. RequestStateMachineChange mch change (QUEUE q) mgr = Some mgr'
           \<and> m_stateMachineChange mgr' q = change \<and> m_newStateMachine mgr' q = mch
           \<and> (\<forall>q'. q' \<noteq> q \<longrightarrow>
                 m_stateMachineChange mgr' q' = m_stateMachineChange mgr q'
                 \<and> m_newStateMachine mgr' q' = m_newStateMachine mgr q')"
  using assms by (simp add: RequestStateMachineChange_def)

theorem second_machine_request_replaces_pending_witness:
  "(0::nat) < STATE_MACHINE_NUM_QUEUES
   \<and> m_stateMachineChange push_pending 0 \<noteq> NO_STATE_MACHINE_CHANGE
   \<and> (\<exists>mgr'. RequestStateMachineChange None STATE_MACHINE_POP (QUEUE 0) push_pending
                = Some mgr'
           \<and> m_stateMachineChange mgr' 0 = STATE_MACHINE_POP
           \<and> m_newStateMachine mgr' 0 = None
           \<and> m_stateMachineChange mgr' 1 = NO_STATE_MACHINE_CHANGE)"
proof -
  have h1: "(0::nat) < STATE_MACHINE_NUM_QUEUES"
    by (simp add: STATE_MACHINE_NUM_QUEUES_def)
  have h2: "m_stateMachineChange push_pending 0 \<noteq> NO_STATE_MACHINE_CHANGE"
    by (simp add: push_pending_def)
  obtain mgr' where r:
    "RequestStateMachineChange None STATE_MACHINE_POP (QUEUE 0) push_pending = Some mgr'"
    "m_stateMachineChange mgr' 0 = STATE_MACHINE_POP"
    "m_newStateMachine mgr' 0 = None"
    "\<forall>q'. q' \<noteq> 0 \<longrightarrow>
        m_stateMachineChange mgr' q' = m_stateMachineChange push_pending q'
        \<and> m_newStateMachine mgr' q' = m_newStateMachine push_pending q'"
    using second_machine_request_replaces_pending [OF h1 h2, of None STATE_MACHINE_POP]
    by blast
  have "m_stateMachineChange mgr' 1 = NO_STATE_MACHINE_CHANGE"
    using r(4) by (simp add: push_pending_def)
  with h1 h2 r show ?thesis by blast
qed

section \<open>Declaring a variable\<close>

text \<open>
  Claim C9.  DeclareVariable appends one slot at most.  On a machine without state
  variables, DeclareVariable(1, STATE_VARIABLE_SCOPE) leaves a vector of one slot: id 1
  is out of range, and the setter that follows fails.
\<close>

theorem DeclareVariable_beyond_end:
  "length (m_stateVariables
      (DeclareVariable 1 STATE_VARIABLE_SCOPE (StateMachine_new 7 0 (1 / 60) ()))) = 1
   \<and> \<not> id_in_range 1 STATE_VARIABLE_SCOPE
        (DeclareVariable 1 STATE_VARIABLE_SCOPE (StateMachine_new 7 0 (1 / 60) ()))
   \<and> SetStateVariableInt 7 1 STATE_VARIABLE_SCOPE
        (DeclareVariable 1 STATE_VARIABLE_SCOPE (StateMachine_new 7 0 (1 / 60) ())) = None"
  by (simp add: DeclareVariable_def id_in_range_def SetStateVariableInt_def
      SetStateVariable_def new_defs)

section \<open>Broadcast to the list\<close>

lemma owner_ID_g_msgroute_SendMsg [simp]:
  "owner_ID (g_msgroute_SendMsg delay name receiver sender rule scope queue data timer cc s)
     = owner_ID s"
  by (simp add: g_msgroute_SendMsg_def)

lemma broadcast_loop_router:
  "g_msgroute (broadcast_loop delay name data xs s) =
     g_msgroute s @
     map (\<lambda>i. Router_SendMsg
            \<lparr>msg_delay = delay, msg_name = name, msg_receiver = i, msg_sender = owner_ID s,
             msg_rule = SCOPE_TO_STATE_MACHINE, msg_scope = 0,
             msg_queue = STATE_MACHINE_QUEUE_ALL, msg_data = data, msg_timer = False,
             msg_cc = False\<rparr>)
         (filter (\<lambda>i. i \<noteq> owner_ID s) xs)"
proof (induction xs arbitrary: s)
  case Nil
  show ?case by simp
next
  case (Cons i xs)
  show ?case
  proof (cases "i = owner_ID s")
    case True
    then show ?thesis using Cons.IH [of s] by simp
  next
    case False
    let ?s' = "g_msgroute_SendMsg delay name i (owner_ID s) SCOPE_TO_STATE_MACHINE 0
                 STATE_MACHINE_QUEUE_ALL data False False s"
    have "g_msgroute ?s' = g_msgroute s @ [Router_SendMsg
            \<lparr>msg_delay = delay, msg_name = name, msg_receiver = i, msg_sender = owner_ID s,
             msg_rule = SCOPE_TO_STATE_MACHINE, msg_scope = 0,
             msg_queue = STATE_MACHINE_QUEUE_ALL, msg_data = data, msg_timer = False,
             msg_cc = False\<rparr>]"
      by (simp add: g_msgroute_SendMsg_def)
    then show ?thesis using False Cons.IH [of ?s'] by simp
  qed
qed

text \<open>
  Claim C10.  SendMsgBroadcastToList and SendMsgBroadcastToListNow hand the router one
  message for each entry of \<open>m_broadcastList\<close> that differs from the owner's id, in the
  order of the list, each addressed to that entry, and none addressed to the owner: the
  calls added to the router are the image of the list without the owner's id.
\<close>

theorem broadcast_to_list_skips_owner:
  "g_msgroute (SendMsgBroadcastToList name data s) =
     g_msgroute s @
     map (\<lambda>i. Router_SendMsg
            \<lparr>msg_delay = ONE_FRAME s, msg_name = name, msg_receiver = i,
             msg_sender = owner_ID s, msg_rule = SCOPE_TO_STATE_MACHINE, msg_scope = 0,
             msg_queue = STATE_MACHINE_QUEUE_ALL, msg_data = data, msg_timer = False,
             msg_cc = False\<rparr>)
         (filter (\<lambda>i. i \<noteq> owner_ID s) (m_broadcastList s))
   \<and> g_msgroute (SendMsgBroadcastToListNow name data s) =
     g_msgroute s @
     map (\<lambda>i. Router_SendMsg
            \<lparr>msg_delay = 0, msg_name = name, msg_receiver = i,
             msg_sender = owner_ID s, msg_rule = SCOPE_TO_STATE_MACHINE, msg_scope = 0,
             msg_queue = STATE_MACHINE_QUEUE_ALL, msg_data = data, msg_timer = False,
             msg_cc = False\<rparr>)
         (filter (\<lambda>i. i \<noteq> owner_ID s) (m_broadcastList s))"
  by (simp add: SendMsgBroadcastToList_def SendMsgBroadcastToListNow_def broadcast_loop_router)

end
